theory Spec2Isabelle
  imports Main
begin

section \<open>Python values, exceptions and process outcomes\<close>

text \<open>
  The values held by module attributes and by the stage context dictionaries are strings
  and booleans. A call of the source either returns, leaves the process through
  \<open>exit(n)\<close>, or raises an exception.
\<close>

datatype pyval = Str string | Bool bool

datatype exn =
    ValueError string
  | AttributeError string
  | KeyError string
  | NameError string
  | TypeError

datatype 'a result = Return 'a | Exit int | Raise exn

text \<open>\<open>str(v)\<close>, as \<open>%s\<close> and \<open>{}\<close> render a value.\<close>

fun py_str :: "pyval \<Rightarrow> string" where
  "py_str (Str s) = s"
| "py_str (Bool b) = (if b then ''True'' else ''False'')"

text \<open>A module (or a dict) is a finite table of names; a missing attribute raises.\<close>

type_synonym module = "string \<rightharpoonup> pyval"

definition getattr :: "(string \<times> pyval) list \<Rightarrow> string \<Rightarrow> exn + pyval" where
  "getattr tbl n = (case map_of tbl n of None \<Rightarrow> Inl (AttributeError n) | Some v \<Rightarrow> Inr v)"

text \<open>\<open>getattr(obj, name, default)\<close>; \<open>obj\<close> may be Python's \<open>None\<close>, which has none of the names.\<close>

definition getattr_default :: "module option \<Rightarrow> string \<Rightarrow> pyval \<Rightarrow> pyval" where
  "getattr_default obj n d =
     (case obj of None \<Rightarrow> d | Some m \<Rightarrow> (case m n of None \<Rightarrow> d | Some v \<Rightarrow> v))"

subsection \<open>String helpers of the Python library\<close>

definition sq :: string where
  "sq = [CHR 0x27]"

text \<open>\<open>s.split(c)\<close> for a one-character separator: the empty string gives one empty field.\<close>

fun split_char :: "char \<Rightarrow> string \<Rightarrow> string list" where
  "split_char c [] = [[]]"
| "split_char c (x # xs) =
     (if x = c then [] # split_char c xs
      else (case split_char c xs of [] \<Rightarrow> [[x]] | w # ws \<Rightarrow> (x # w) # ws))"

text \<open>\<open>key, _, value = line.partition("=")\<close>: the text before the first \<open>=\<close> and the text after it.\<close>

definition partition_eq :: "string \<Rightarrow> string \<times> string" where
  "partition_eq line =
     (takeWhile (\<lambda>c. c \<noteq> CHR ''='') line, drop 1 (dropWhile (\<lambda>c. c \<noteq> CHR ''='') line))"

fun join :: "string \<Rightarrow> string list \<Rightarrow> string" where
  "join sep [] = []"
| "join sep [w] = w"
| "join sep (w # v # ws) = w @ sep @ join sep (v # ws)"

definition is_lower :: "char \<Rightarrow> bool" where
  "is_lower c = (97 \<le> (of_char c :: nat) \<and> (of_char c :: nat) \<le> 122)"

definition is_upper :: "char \<Rightarrow> bool" where
  "is_upper c = (65 \<le> (of_char c :: nat) \<and> (of_char c :: nat) \<le> 90)"

definition to_upper :: "char \<Rightarrow> char" where
  "to_upper c = (if is_lower c then char_of ((of_char c :: nat) - 32) else c)"

definition to_lower :: "char \<Rightarrow> char" where
  "to_lower c = (if is_upper c then char_of ((of_char c :: nat) + 32) else c)"

text \<open>\<open>s.title()\<close>: a letter after a non-letter is upper-cased, a letter after a letter lower-cased.\<close>

fun title_from :: "bool \<Rightarrow> string \<Rightarrow> string" where
  "title_from prev [] = []"
| "title_from prev (c # cs) =
     (if is_lower c \<or> is_upper c
      then (if prev then to_lower c else to_upper c) # title_from True cs
      else c # title_from False cs)"

definition title :: "string \<Rightarrow> string" where
  "title s = title_from False s"

text \<open>\<open>os.path.join(a, b)\<close> on POSIX paths.\<close>

definition os_path_join :: "string \<Rightarrow> string \<Rightarrow> string" where
  "os_path_join a b =
     (if b \<noteq> [] \<and> hd b = CHR ''/'' then b
      else if a = [] \<or> last a = CHR ''/'' then a @ b
      else a @ ''/'' @ b)"

section \<open>cli/utils/settings.py\<close>

text \<open>
  The settings module is evaluated once per process, from the process environment, the
  default stage name of \<open>shared.get_default_stage_name()\<close>, the sixteen random characters
  drawn for \<open>random_password\<close>, and the directory of the file.
\<close>

record process =
  environ :: "string \<rightharpoonup> string"
  default_stage_name :: string
  random_chars :: string
  base_dir :: string

text \<open>\<open>os.environ.get(k, d)\<close> and \<open>os.getenv(k, d)\<close>.\<close>

definition os_getenv :: "(string \<rightharpoonup> string) \<Rightarrow> string \<Rightarrow> string \<Rightarrow> string" where
  "os_getenv env k d = (case env k of None \<Rightarrow> d | Some v \<Rightarrow> v)"

text \<open>
  The names the module assigns, in the order of the file (a name assigned twice,
  \<open>DATABASE_REGION\<close>, is listed once: both assignments give the same value).
\<close>

definition settings :: "process \<Rightarrow> (string \<times> pyval) list" where
  "settings p =
     (let env = environ p;
          PROJECT = os_getenv env ''PROJECT'' (default_stage_name p);
          REGION = os_getenv env ''REGION'' ''us-central1'';
          random_password = random_chars p;
          DATABASE_NAME = os_getenv env ''DATABASE_NAME'' ''crmintapp-db''
      in
      [ (''BASE_DIR'', Str (base_dir p)),
        (''DEBUG'', Bool (os_getenv env ''DEBUG'' ''False'' = ''True'')),
        (''PROJECT'', Str PROJECT),
        (''REGION'', Str REGION),
        (''random_password'', Str random_password),
        (''DATABASE_NAME'', Str DATABASE_NAME),
        (''DATABASE_INSTANCE_NAME'', Str (os_getenv env ''DATABASE_INSTANCE_NAME'' DATABASE_NAME)),
        (''DATABASE_USER'', Str (os_getenv env ''DATABASE_USER'' ''crmintapp'')),
        (''DATABASE_PASSWORD'', Str (os_getenv env ''DATABASE_PASSWORD'' random_password)),
        (''DATABASE_PUBLIC_IP'', Bool (os_getenv env ''DATABASE_PUBLIC_IP'' ''False'' = ''True'')),
        (''DATABASE_BACKUP_ENABLED'',
           Bool (os_getenv env ''DATABASE_BACKUP_ENABLED'' ''False'' = ''True'')),
        (''DATABASE_HA_ENABLED'', Bool (os_getenv env ''DATABASE_HA_ENABLED'' ''True'' = ''False'')),
        (''DATABASE_REGION'', Str (os_getenv env ''DATABASE_REGION'' REGION)),
        (''DATABASE_TIER'', Str (os_getenv env ''DATABASE_TIER'' ''db-g1-small'')),
        (''DATABASE_PROJECT'', Str (os_getenv env ''DATABASE_PROJECT'' PROJECT)),
        (''NETWORK'', Str (os_getenv env ''NETWORK'' ''crmint-vpc'')),
        (''SUBNET'', Str (os_getenv env ''SUBNET'' (''crmint-'' @ REGION @ ''-subnet''))),
        (''SUBNET_CIDR'', Str (os_getenv env ''SUBNET_CIDR'' ''10.0.0.0/28'')),
        (''CONNECTOR'', Str (os_getenv env ''CONNECTOR'' ''crmint-vpc-serverless-connector'')),
        (''CONNECTOR_CIDR'', Str (os_getenv env ''CONNECTOR_CIDR'' ''10.0.0.16/28'')),
        (''NETWORK_SERVICE_PROJECT'', Str (os_getenv env ''NETWORK_SERVICE_PROJECT'' PROJECT)),
        (''NETWORK_HOST_PROJECT'', Str (os_getenv env ''NETWORK_HOST_PROJECT'' PROJECT)),
        (''GAE_PROJECT'', Str (os_getenv env ''GAE_PROJECT'' PROJECT)),
        (''GAE_REGION'', Str (os_getenv env ''GAE_REGION'' REGION)),
        (''GAE_APP_TITLE'',
           Str (os_getenv env ''GAE_APP_TITLE''
                  (title (join '' '' (split_char CHR ''-'' (default_stage_name p))))))
      ])"


section \<open>The process state and the missing collaborators\<close>

text \<open>
  One call of \<open>shared.execute_command\<close>: the step name, the shell command, and the keyword
  arguments the callers set.
\<close>

record call =
  step_name :: string
  command :: string
  cwd :: string
  report_empty_err :: bool
  debug :: bool
  stream_output_in_debug :: bool

text \<open>The defaults of the keyword arguments: \<open>cwd='.'\<close>, \<open>report_empty_err=True\<close>.\<close>

definition mk_call :: "string \<Rightarrow> string \<Rightarrow> bool \<Rightarrow> call" where
  "mk_call name cmd dbg =
     \<lparr>step_name = name, command = cmd, cwd = ''.'', report_empty_err = True, debug = dbg,
      stream_output_in_debug = True\<rparr>"

text \<open>
  The functions a pipeline lists in \<open>components\<close>, one constructor for each function of
  \<open>cloud.py\<close> that a list names.

  The state a command of the CLI acts on: the local files (path to content), the external
  control plane (opaque), and three logs: the lines written with \<open>click.echo\<close>, the calls
  made to \<open>shared.execute_command\<close>, and the components a pipeline loop has called, each in
  order.
\<close>

datatype component =
    Downgrade_app_engine_python
  | Activate_services
  | Create_vpc
  | Create_subnet
  | Create_vpc_connector
  | Create_appengine
  | Create_service_account_key_if_needed
  | Grant_required_permissions
  | Create_mysql_instance_if_needed
  | Create_mysql_user_if_needed
  | Create_mysql_database_if_needed
  | Download_config_files
  | Install_required_packages
  | Display_workdir
  | Copy_src_to_workdir
  | Install_backends_dependencies
  | Deploy_frontend
  | Deploy_backends
  | Deploy_dispatch_rules
  | Download_cloud_sql_proxy
  | Start_cloud_sql_proxy
  | Prepare_flask_envars
  | Run_flask_db_upgrade
  | Run_flask_db_seeds
  | Stop_cloud_sql_proxy
  | Run_reset_pipelines

record 'w state =
  files :: "string \<rightharpoonup> string"
  cloud :: 'w
  echoed :: "string list"
  calls :: "call list"
  invoked :: "component list"

text \<open>
  The shell: what running one command does to the files and the control plane, and the
  \<open>(status, out, err)\<close> it returns, unless it ends the process.
\<close>

type_synonym 'w executor =
  "call \<Rightarrow> (string \<rightharpoonup> string) \<Rightarrow> 'w \<Rightarrow> (int \<times> string \<times> string) result \<times> (string \<rightharpoonup> string) \<times> 'w"

text \<open>
  The enriched stage object the provisioning steps read, after \<open>shared.before_hook\<close>: the
  attributes the steps of \<open>cloud.py\<close> format into their commands, already as text.
\<close>

record stage =
  stage_name :: string
  project_id :: string
  gae_project :: string
  gae_region :: string
  network :: string
  network_project :: string
  subnet :: string
  subnet_region :: string
  subnet_cidr :: string
  connector :: string
  connector_subnet :: string
  connector_cidr :: string
  connector_min_instances :: string
  connector_max_instances :: string
  connector_machine_type :: string
  database_project :: string
  database_instance_name :: string
  database_tier :: string
  database_region :: string
  database_ha_type :: string
  database_username :: string
  database_password :: string
  database_name :: string

text \<open>
  The modules \<open>cli.utils.shared\<close>, \<open>cli.utils.constants\<close> and
  \<open>cli.utils.stage_file_template\<close> are not among the files modelled here; what the code
  uses of them is taken as a parameter. \<open>get_stage_object\<close> gives \<open>None\<close> for Python's \<open>None\<close>.
  The bodies of the components of the deploy and reset pipelines (shell templates, YAML
  edits, environment variables) are not interpreted either: \<open>unmodelled_component\<close> stands
  for whatever they do to the state.
\<close>

record 'w externals =
  execute_command_impl :: "'w executor"
  get_default_stage_name :: string
  get_stage_file :: "string \<Rightarrow> string"
  check_stage_file :: "(string \<rightharpoonup> string) \<Rightarrow> string \<Rightarrow> bool"
  get_stage_object :: "(string \<rightharpoonup> string) \<Rightarrow> string \<Rightarrow> module option"
  before_hook :: "module \<Rightarrow> string \<Rightarrow> stage"
  check_service_account_file :: "(string \<rightharpoonup> string) \<Rightarrow> stage \<Rightarrow> bool"
  get_service_account_file :: "stage \<Rightarrow> string"
  STAGE_DIR :: string
  PROJECT_DIR :: string
  STAGE_FILE_TEMPLATE_format :: "module \<Rightarrow> exn + string"
  unmodelled_component :: "component \<Rightarrow> stage \<Rightarrow> bool \<Rightarrow> 'w state \<Rightarrow> unit result \<times> 'w state"

subsection \<open>Sequencing\<close>

definition return :: "'a \<Rightarrow> 's \<Rightarrow> 'a result \<times> 's" where
  "return a s = (Return a, s)"

definition exit :: "int \<Rightarrow> 's \<Rightarrow> 'a result \<times> 's" where
  "exit n s = (Exit n, s)"

definition raise :: "exn \<Rightarrow> 's \<Rightarrow> 'a result \<times> 's" where
  "raise e s = (Raise e, s)"

text \<open>Run \<open>m\<close>, then \<open>f\<close> on what it returned; an exit or an exception ends the sequence.\<close>

definition and_then :: "('s \<Rightarrow> 'a result \<times> 's) \<Rightarrow> ('a \<Rightarrow> 's \<Rightarrow> 'b result \<times> 's) \<Rightarrow> 's \<Rightarrow> 'b result \<times> 's" where
  "and_then m f s =
     (case m s of
        (Return a, s') \<Rightarrow> f a s'
      | (Exit n, s') \<Rightarrow> (Exit n, s')
      | (Raise e, s') \<Rightarrow> (Raise e, s'))"

text \<open>\<open>click.echo(click.style(msg, ...))\<close>: the styling is dropped, the text is kept.\<close>

definition click_echo :: "string \<Rightarrow> 'w state \<Rightarrow> unit result \<times> 'w state" where
  "click_echo msg s = (Return (), s\<lparr>echoed := echoed s @ [msg]\<rparr>)"

definition execute_command :: "'w externals \<Rightarrow> call \<Rightarrow> 'w state \<Rightarrow> (int \<times> string \<times> string) result \<times> 'w state" where
  "execute_command x c s =
     (case execute_command_impl x c (files s) (cloud s) of
        (r, fs, w) \<Rightarrow> (r, s\<lparr>files := fs, cloud := w, calls := calls s @ [c]\<rparr>))"

text \<open>\<open>if not stage_name: stage_name = shared.get_default_stage_name()\<close>.\<close>

definition stage_name_or_default :: "'w externals \<Rightarrow> string option \<Rightarrow> string" where
  "stage_name_or_default x name_opt =
     (case name_opt of None \<Rightarrow> get_default_stage_name x
      | Some n \<Rightarrow> (if n = [] then get_default_stage_name x else n))"

section \<open>cli/commands/stages.py\<close>

definition STAGE_VERSION_1_0 :: string where
  "STAGE_VERSION_1_0 = ''v1.0''"

definition STAGE_VERSION_2_0 :: string where
  "STAGE_VERSION_2_0 = ''v2.0''"

definition SUPPORTED_STAGE_VERSIONS :: "string list" where
  "SUPPORTED_STAGE_VERSIONS = [STAGE_VERSION_1_0, STAGE_VERSION_2_0]"

text \<open>
  The keyword arguments of \<open>dict(...)\<close> are evaluated in order; the first one that raises
  ends the call.
\<close>

fun collect :: "(string \<times> (exn + pyval)) list \<Rightarrow> exn + (string \<times> pyval) list" where
  "collect [] = Inr []"
| "collect ((k, Inl e) # rest) = Inl e"
| "collect ((k, Inr v) # rest) =
     (case collect rest of Inl e \<Rightarrow> Inl e | Inr kvs \<Rightarrow> Inr ((k, v) # kvs))"

definition default_stage_context :: "(string \<times> pyval) list \<Rightarrow> string \<Rightarrow> exn + module" where
  "default_stage_context settings_mod name =
     map_sum id map_of (collect
      [ (''service_account_file'', Inr (Str (name @ ''.json''))),
        (''project_id'', getattr settings_mod ''PROJECT''),
        (''project_region'', getattr settings_mod ''REGION''),
        (''workdir'', Inr (Str (''/tmp/'' @ name))),
        (''database_name'', getattr settings_mod ''DATABASE_NAME''),
        (''database_region'', getattr settings_mod ''DATABASE_REGION''),
        (''database_tier'', getattr settings_mod ''DATABASE_TIER''),
        (''database_username'', getattr settings_mod ''DATABASE_USER''),
        (''database_password'', getattr settings_mod ''DATABASE_PASSWORD''),
        (''database_instance_name'', getattr settings_mod ''DATABASE_INSTANCE_NAME''),
        (''database_public_ip'', getattr settings_mod ''DATABASE_PUBLIC_IP''),
        (''database_backup_enabled'', getattr settings_mod ''DATABASE_BACKUP_ENABLED''),
        (''database_ha_enabled'', getattr settings_mod ''DATABASE_HA_ENABLED''),
        (''database_project'', getattr settings_mod ''DATABASE_PROJECT''),
        (''network'', getattr settings_mod ''NETWORK''),
        (''subnet'', getattr settings_mod ''SUBNET''),
        (''subnet_region'', getattr settings_mod ''SUBNET_REGION''),
        (''subnet_cidr'', getattr settings_mod ''SUBNET_CIDR''),
        (''connector'', getattr settings_mod ''CONNECTOR''),
        (''connector_subnet'', getattr settings_mod ''CONNECTOR_SUBNET''),
        (''connector_cidr'', getattr settings_mod ''CONNECTOR_CIDR''),
        (''connector_min_instances'', getattr settings_mod ''CONNECTOR_MIN_INSTANCES''),
        (''connector_max_instances'', getattr settings_mod ''CONNECTOR_MAX_INSTANCES''),
        (''connector_machine_type'', getattr settings_mod ''CONNECTOR_MACHINE_TYPE''),
        (''network_project'', getattr settings_mod ''NETWORK_PROJECT''),
        (''gae_project'', getattr settings_mod ''GAE_PROJECT''),
        (''gae_region'', getattr settings_mod ''GAE_REGION''),
        (''gae_app_title'', getattr settings_mod ''GAE_APP_TITLE''),
        (''notification_sender_email'', Inr (Str (''noreply@'' @ name @ ''.appspotmail.com'')))
      ])"

text \<open>
  The functions below that reach the module \<open>settings\<close> are written over the table of its
  names (\<open>settings_mod\<close>); what the program does is their instance at \<open>settings p\<close>.

  \<open>_create_stage_file\<close>: the context is computed and the template filled in before the
  file is opened, so an exception of either leaves the files as they were.
\<close>

definition create_stage_file_with :: "'w externals \<Rightarrow> (string \<times> pyval) list \<Rightarrow> string \<Rightarrow> module option \<Rightarrow> 'w state \<Rightarrow> string result \<times> 'w state" where
  "create_stage_file_with x settings_mod name context s =
     (let filename = name @ ''.py'';
          filepath = os_path_join (STAGE_DIR x) filename
      in case (case context of
                 None \<Rightarrow> default_stage_context settings_mod name
               | Some c \<Rightarrow> Inr c) of
           Inl e \<Rightarrow> (Raise e, s)
         | Inr c \<Rightarrow>
             (case STAGE_FILE_TEMPLATE_format x c of
                Inl e \<Rightarrow> (Raise e, s)
              | Inr content \<Rightarrow> (Return filepath, s\<lparr>files := (files s)(filepath \<mapsto> content)\<rparr>)))"

definition create_stage_file :: "'w externals \<Rightarrow> process \<Rightarrow> string \<Rightarrow> module option \<Rightarrow> 'w state \<Rightarrow> string result \<times> 'w state" where
  "create_stage_file x p = create_stage_file_with x (settings p)"

definition os_path_exists :: "(string \<rightharpoonup> string) \<Rightarrow> string \<Rightarrow> bool" where
  "os_path_exists fs path = (fs path \<noteq> None)"

definition unsupported_message :: "pyval \<Rightarrow> string" where
  "unsupported_message v =
     ''Unsupported spec version: '' @ sq @ py_str v @ sq @
     ''. Supported versions are ('' @ sq @ STAGE_VERSION_1_0 @ sq @ '', '' @ sq @
     STAGE_VERSION_2_0 @ sq @ '')''"

definition detect_stage_version :: "'w externals \<Rightarrow> string \<Rightarrow> (string \<rightharpoonup> string) \<Rightarrow> exn + (pyval \<times> string)" where
  "detect_stage_version x name fs =
     (let stage_python_filepath = get_stage_file x name in
      if os_path_exists fs stage_python_filepath then
        (let stage = get_stage_object x fs name;
             stage_version = getattr_default stage ''spec_version'' (Str STAGE_VERSION_2_0)
         in if stage_version \<notin> set (map Str SUPPORTED_STAGE_VERSIONS)
            then Inl (ValueError (unsupported_message stage_version))
            else Inr (stage_version, stage_python_filepath))
      else
        (let stage_bash_filepath =
               os_path_join (os_path_join (PROJECT_DIR x) ''scripts/variables/stages'')
                 (name @ ''.sh'')
         in if os_path_exists fs stage_bash_filepath
            then Inr (Str STAGE_VERSION_1_0, stage_bash_filepath)
            else Inl (ValueError (''No stage file found for name: '' @ sq @ name @ sq))))"

text \<open>The loop over the lines of the output: a later line with the same key wins.\<close>

definition env_lines_to_dict :: "string \<Rightarrow> module" where
  "env_lines_to_dict out =
     foldl (\<lambda>old_stage line. (case partition_eq line of (key, v) \<Rightarrow> old_stage(key \<mapsto> Str v)))
       Map.empty (split_char CHR 0x0A out)"

definition parse_old_stage_file :: "'w externals \<Rightarrow> string \<Rightarrow> 'w state \<Rightarrow> module option result \<times> 'w state" where
  "parse_old_stage_file x name s =
     (case detect_stage_version x name (files s) of
        Inl e \<Rightarrow> (Raise e, s)
      | Inr (old_version, old_filepath) \<Rightarrow>
          if old_version = Str STAGE_VERSION_1_0 then
            and_then
              (execute_command x
                 ((mk_call ''Load bash environment variables''
                     (''source '' @ old_filepath @ '' && set 2>/dev/null'') False)
                  \<lparr>cwd := PROJECT_DIR x, stream_output_in_debug := False\<rparr>))
              (\<lambda>(status, out, err). return (Some (env_lines_to_dict out))) s
          else if old_version = Str STAGE_VERSION_2_0 then (Return None, s)
          else (Return None, s))"

definition create :: "'w externals \<Rightarrow> process \<Rightarrow> string option \<Rightarrow> 'w state \<Rightarrow> unit result \<times> 'w state" where
  "create x p name_opt s =
     (let name = stage_name_or_default x name_opt in
      if check_stage_file x (files s) name then
        and_then
          (click_echo (''This stage name already exists. You can list '' @
                       ''them all with: `$ crmint stages list`''))
          (\<lambda>_. exit 1) s
      else
        and_then (create_stage_file x p name None)
          (\<lambda>filepath. click_echo (''Stage file created: '' @ filepath)) s)"

text \<open>
  \<open>_create\<close>, the variant \<open>begin\<close> calls: where \<open>create\<close> exits, it has \<open>pass\<close>, and goes on to
  \<open>_create_stage_file\<close>.
\<close>

definition u_create_with :: "'w externals \<Rightarrow> (string \<times> pyval) list \<Rightarrow> string option \<Rightarrow> 'w state \<Rightarrow> unit result \<times> 'w state" where
  "u_create_with x settings_mod name_opt s =
     (let name = stage_name_or_default x name_opt in
      and_then
        (if check_stage_file x (files s) name then
           click_echo (''This stage name already exists. You can list '' @
                       ''them all with: `$ crmint stages list`'')
         else return ())
        (\<lambda>_. and_then (create_stage_file_with x settings_mod name None)
          (\<lambda>filepath. click_echo (''Stage file created: '' @ filepath))) s)"

definition u_create :: "'w externals \<Rightarrow> process \<Rightarrow> string option \<Rightarrow> 'w state \<Rightarrow> unit result \<times> 'w state" where
  "u_create x p = u_create_with x (settings p)"

text \<open>
  \<open>migrate\<close>: only a \<open>ValueError\<close> of the detection is caught; the default context is
  computed after the \<open>try\<close> block.
\<close>

definition migrate :: "'w externals \<Rightarrow> process \<Rightarrow> string option \<Rightarrow> 'w state \<Rightarrow> unit result \<times> 'w state" where
  "migrate x p name_opt s =
     (let name = stage_name_or_default x name_opt in
      case parse_old_stage_file x name s of
        (Raise (ValueError msg), s1) \<Rightarrow> and_then (click_echo msg) (\<lambda>_. exit 1) s1
      | (Raise e, s1) \<Rightarrow> (Raise e, s1)
      | (Exit n, s1) \<Rightarrow> (Exit n, s1)
      | (Return None, s1) \<Rightarrow>
          and_then (click_echo (''Already latest version detected: '' @ name)) (\<lambda>_. exit 0) s1
      | (Return (Some old_context), s1) \<Rightarrow>
          (case default_stage_context (settings p) name of
             Inl e \<Rightarrow> (Raise e, s1)
           | Inr new_stage \<Rightarrow>
               and_then (create_stage_file x p name (Some (new_stage ++ old_context)))
                 (\<lambda>filepath. click_echo (''Successfully migrated stage file to: '' @ filepath))
                 s1))"

section \<open>cli/commands/cloud.py\<close>

text \<open>
  \<open>fetch_stage_or_default\<close> returns \<open>None\<close> when the stage file is missing, and the pair
  \<open>(stage_name, stage)\<close> otherwise.
\<close>

definition fetch_stage_or_default :: \<open>'w externals \<Rightarrow> string option \<Rightarrow> bool \<Rightarrow> 'w state \<Rightarrow> (string \<times> module option) option result \<times> 'w state\<close> where
  \<open>fetch_stage_or_default x name_opt dbg s =
     (let name = stage_name_or_default x name_opt in
      if \<not> check_stage_file x (files s) name then
        and_then (click_echo (''Stage file '' @ sq @ name @ sq @ '' not found.''))
          (\<lambda>_. return None) s
      else return (Some (name, get_stage_object x (files s) name)) s)\<close>

subsection \<open>Setup: probes and provisioning steps\<close>

definition gcloud_command :: string where
  \<open>gcloud_command = ''$GOOGLE_CLOUD_SDK/bin/gcloud --quiet''\<close>

text \<open>\<open>out.strip()\<close>: white space removed at both ends.\<close>

definition is_space :: \<open>char \<Rightarrow> bool\<close> where
  \<open>is_space c = (c \<in> set [CHR '' '', CHR 0x09, CHR 0x0A, CHR 0x0B, CHR 0x0C, CHR 0x0D])\<close>

definition strip :: \<open>string \<Rightarrow> string\<close> where
  \<open>strip s = rev (dropWhile is_space (rev (dropWhile is_space s)))\<close>

text \<open>\<open>%d\<close> of a natural number.\<close>

fun show_nat :: \<open>nat \<Rightarrow> string\<close> where
  \<open>show_nat n =
     (if n < 10 then [char_of (48 + n)]
      else show_nat (n div 10) @ [char_of (48 + n mod 10)])\<close>

text \<open>
  The loop \<open>for cmd in commands\<close> that numbers its calls \<open>(idx/total)\<close>; a call that ends
  the process ends the loop.
\<close>

fun run_numbered :: \<open>'w externals \<Rightarrow> string \<Rightarrow> bool \<Rightarrow> nat \<Rightarrow> nat \<Rightarrow> string list \<Rightarrow> 'w state \<Rightarrow> unit result \<times> 'w state\<close> where
  \<open>run_numbered x label dbg total_count idx [] = return ()\<close>
| \<open>run_numbered x label dbg total_count idx (cmd # cmds) =
     and_then
       (execute_command x
          (mk_call (label @ '' ('' @ show_nat idx @ ''/'' @ show_nat total_count @ '')'') cmd dbg))
       (\<lambda>_. run_numbered x label dbg total_count (idx + 1) cmds)\<close>

definition check_if_appengine_instance_exists :: \<open>'w externals \<Rightarrow> stage \<Rightarrow> bool \<Rightarrow> 'w state \<Rightarrow> bool result \<times> 'w state\<close> where
  \<open>check_if_appengine_instance_exists x stage dbg =
     and_then
       (execute_command x
          ((mk_call ''Check if App Engine already exists''
             (gcloud_command @
              '' app describe --verbosity critical --project='' @
              project_id stage @
              '' | grep -q '' @
              sq @
              ''codeBucket'' @
              sq)
             dbg)\<lparr>report_empty_err := False\<rparr>))
       (\<lambda>(status, out, err). return (status = 0))\<close>

definition create_appengine :: \<open>'w externals \<Rightarrow> stage \<Rightarrow> bool \<Rightarrow> 'w state \<Rightarrow> unit result \<times> 'w state\<close> where
  \<open>create_appengine x stage dbg =
     and_then (check_if_appengine_instance_exists x stage dbg)
       (\<lambda>found.
          if found then click_echo ''     App Engine already exists.''
          else and_then
            (execute_command x
               (mk_call ''Create the App Engine instance''
                  (gcloud_command @
                   '' app create --project='' @
                   gae_project stage @
                   '' --region='' @
                   gae_region stage)
                  dbg))
            (\<lambda>_. return ()))\<close>

definition check_if_vpc_exists :: \<open>'w externals \<Rightarrow> stage \<Rightarrow> bool \<Rightarrow> 'w state \<Rightarrow> bool result \<times> 'w state\<close> where
  \<open>check_if_vpc_exists x stage dbg =
     and_then
       (execute_command x
          ((mk_call ''Check if VPC already exists''
             (gcloud_command @
              '' compute networks describe '' @
              network stage @
              '' --verbosity critical --project='' @
              network_project stage)
             dbg)\<lparr>report_empty_err := False\<rparr>))
       (\<lambda>(status, out, err). return (status = 0))\<close>

definition check_if_peering_exists :: \<open>'w externals \<Rightarrow> stage \<Rightarrow> bool \<Rightarrow> 'w state \<Rightarrow> bool result \<times> 'w state\<close> where
  \<open>check_if_peering_exists x stage dbg =
     and_then
       (execute_command x
          ((mk_call ''Check if VPC Peering exists''
             (gcloud_command @
              '' services vpc-peerings list --network='' @
              network stage @
              '' --verbosity critical --project='' @
              network_project stage @
              '' | grep '' @
              network stage @
              ''-psc'')
             dbg)\<lparr>report_empty_err := False\<rparr>))
       (\<lambda>(status, out, err). return (status = 0))\<close>

text \<open>
  \<open>create_vpc\<close>: once the network is found missing, the network, the address range and
  the peering (updated when there is one, connected otherwise) follow without a check of
  their own.
\<close>

definition create_vpc :: \<open>'w externals \<Rightarrow> stage \<Rightarrow> bool \<Rightarrow> 'w state \<Rightarrow> unit result \<times> 'w state\<close> where
  \<open>create_vpc x stage dbg =
     and_then (check_if_vpc_exists x stage dbg)
       (\<lambda>found.
          if found then click_echo ''     VPC already exists.''
          else and_then
            (execute_command x
               (mk_call ''Create the VPC''
                  (gcloud_command @
                   '' compute networks create '' @
                   network stage @
                   '' --project='' @
                   network_project stage @
                   ''     --subnet-mode=custom     --bgp-routing-mode=regional     --mtu=1460'')
                  dbg))
            (\<lambda>_. and_then
            (execute_command x
               (mk_call ''Allocating an IP address range''
                  (gcloud_command @
                   '' compute addresses create '' @
                   network stage @
                   ''-psc       --global       --purpose=VPC_PEERING       --addresses=192.168.0.0 '' @
                   ''      --prefix-length=24       --network='' @
                   network stage)
                  dbg))
            (\<lambda>_. and_then (check_if_peering_exists x stage dbg)
            (\<lambda>peering. and_then
            (execute_command x
               (mk_call ''Creating or updating the private connection''
                  (if peering then
                     gcloud_command @
                     '' services vpc-peerings update       --service=servicenetworking.googleapis.com'' @
                     ''       --ranges='' @
                     network stage @
                     ''-psc       --network='' @
                     network stage @
                     ''       --force       --project='' @
                     network_project stage
                   else
                     gcloud_command @
                     '' services vpc-peerings connect         --service=servicenetworking.googleapis.'' @
                     ''com         --ranges='' @
                     network stage @
                     ''-psc         --network='' @
                     network stage @
                     ''         --project='' @
                     network_project stage)
                  dbg))
            (\<lambda>_. return ())))))\<close>

definition check_if_subnet_exists :: \<open>'w externals \<Rightarrow> stage \<Rightarrow> bool \<Rightarrow> 'w state \<Rightarrow> bool result \<times> 'w state\<close> where
  \<open>check_if_subnet_exists x stage dbg =
     and_then
       (execute_command x
          ((mk_call ''Check if VPC Subnet already exists''
             (gcloud_command @
              '' compute networks subnets describe '' @
              subnet stage @
              '' --verbosity critical --project='' @
              network_project stage @
              ''     --region='' @
              subnet_region stage)
             dbg)\<lparr>report_empty_err := False\<rparr>))
       (\<lambda>(status, out, err). return (status = 0))\<close>

definition check_if_connector_subnet_exists :: \<open>'w externals \<Rightarrow> stage \<Rightarrow> bool \<Rightarrow> 'w state \<Rightarrow> bool result \<times> 'w state\<close> where
  \<open>check_if_connector_subnet_exists x stage dbg =
     and_then
       (execute_command x
          ((mk_call ''Check if VPC Subnet already exists''
             (gcloud_command @
              '' compute networks subnets describe '' @
              connector_subnet stage @
              '' --verbosity critical --project='' @
              network_project stage @
              ''     --region='' @
              subnet_region stage)
             dbg)\<lparr>report_empty_err := False\<rparr>))
       (\<lambda>(status, out, err). return (status = 0))\<close>

text \<open>\<open>create_subnet\<close> checks and creates two subnets in turn: the app subnet, then the connector subnet.\<close>

definition create_subnet :: \<open>'w externals \<Rightarrow> stage \<Rightarrow> bool \<Rightarrow> 'w state \<Rightarrow> unit result \<times> 'w state\<close> where
  \<open>create_subnet x stage dbg =
     and_then (check_if_subnet_exists x stage dbg)
       (\<lambda>found. and_then
          (if found then click_echo ''     VPC App Subnet already exists.''
           else and_then
            (execute_command x
               (mk_call ''Create the VPC App Subnet''
                  (gcloud_command @
                   '' compute networks subnets create '' @
                   subnet stage @
                   ''       --network='' @
                   network stage @
                   ''       --range='' @
                   subnet_cidr stage @
                   ''       --region='' @
                   subnet_region stage @
                   ''       --project='' @
                   network_project stage)
                  dbg))
            (\<lambda>_. return ()))
       (\<lambda>_. and_then (check_if_connector_subnet_exists x stage dbg)
       (\<lambda>found_connector.
          if found_connector then click_echo ''     VPC Connector Subnet already exists.''
          else and_then
            (execute_command x
               (mk_call ''Create the VPC Connector Subnet''
                  (gcloud_command @
                   '' compute networks subnets create '' @
                   connector_subnet stage @
                   ''       --network='' @
                   network stage @
                   ''       --range='' @
                   connector_cidr stage @
                   ''       --region='' @
                   subnet_region stage @
                   ''       --project='' @
                   network_project stage)
                  dbg))
            (\<lambda>_. return ()))))\<close>

definition check_if_vpc_connector_exists :: \<open>'w externals \<Rightarrow> stage \<Rightarrow> bool \<Rightarrow> 'w state \<Rightarrow> bool result \<times> 'w state\<close> where
  \<open>check_if_vpc_connector_exists x stage dbg =
     and_then
       (execute_command x
          ((mk_call ''Check if VPC Connector already exists''
             (gcloud_command @
              '' compute networks vpc-access connectors describe '' @
              connector stage @
              '' --verbosity critical --project='' @
              network_project stage @
              '' | grep '' @
              connector stage)
             dbg)\<lparr>report_empty_err := False\<rparr>))
       (\<lambda>(status, out, err). return (status = 0))\<close>

definition create_vpc_connector :: \<open>'w externals \<Rightarrow> stage \<Rightarrow> bool \<Rightarrow> 'w state \<Rightarrow> unit result \<times> 'w state\<close> where
  \<open>create_vpc_connector x stage dbg =
     and_then (check_if_vpc_connector_exists x stage dbg)
       (\<lambda>found.
          if found then click_echo ''     VPC Connector already exists.''
          else and_then
            (execute_command x
               (mk_call ''Create the VPC Connector''
                  (gcloud_command @
                   '' compute networks vpc-access connectors create '' @
                   connector stage @
                   ''         --region '' @
                   subnet_region stage @
                   ''         --subnet '' @
                   connector_subnet stage @
                   ''         --subnet-project '' @
                   network_project stage @
                   ''         --min-instances '' @
                   connector_min_instances stage @
                   ''         --max-instances '' @
                   connector_max_instances stage @
                   ''         --machine-type '' @
                   connector_machine_type stage)
                  dbg))
            (\<lambda>_. return ()))\<close>

text \<open>The service account key is looked for among the local files, not with a command.\<close>

definition create_service_account_key_if_needed :: \<open>'w externals \<Rightarrow> stage \<Rightarrow> bool \<Rightarrow> 'w state \<Rightarrow> unit result \<times> 'w state\<close> where
  \<open>create_service_account_key_if_needed x stage dbg s =
     (if check_service_account_file x (files s) stage then
        click_echo ''     Service account key already exists.'' s
      else
        and_then
          (execute_command x
               (mk_call ''Create the service account key''
                  (gcloud_command @
                   '' iam service-accounts keys create "'' @
                   get_service_account_file x stage @
                   ''"     --iam-account="'' @
                   project_id stage @
                   ''@appspot.gserviceaccount.com"     --key-file-type='' @
                   sq @
                   ''json'' @
                   sq @
                   ''     --project='' @
                   project_id stage)
                  dbg))
          (\<lambda>_. return ()) s)\<close>

text \<open>The guard of the setup pipeline: two commands, the second one a check of its exit status.\<close>

definition confirm_authorized_user_owner_role :: \<open>'w externals \<Rightarrow> stage \<Rightarrow> bool \<Rightarrow> 'w state \<Rightarrow> bool result \<times> 'w state\<close> where
  \<open>confirm_authorized_user_owner_role x stage dbg =
     and_then
       (execute_command x
          (mk_call ''Getting authorized user''
             (gcloud_command @
              '' auth list     --format="value(account)"'')
             dbg))
       (\<lambda>(status, out, err). and_then
       (execute_command x
          ((mk_call ''Check if authorized user is owner''
             (gcloud_command @
              '' projects get-iam-policy '' @
              project_id stage @
              ''     --flatten="bindings[].members"     --format="table(bindings.role)"     --'' @
              ''filter="bindings.members:'' @
              strip out @
              ''"     | grep -q '' @
              sq @
              ''roles/owner'' @
              sq)
             dbg)\<lparr>report_empty_err := False\<rparr>))
       (\<lambda>(status, out, err). return (status = 0)))\<close>

definition downgrade_app_engine_python :: \<open>'w externals \<Rightarrow> stage \<Rightarrow> bool \<Rightarrow> 'w state \<Rightarrow> unit result \<times> 'w state\<close> where
  \<open>downgrade_app_engine_python x stage dbg =
     and_then
       (execute_command x
          (mk_call ''Downgrade app-engine-python''
             (''sudo apt-get -y install google-cloud-sdk-app-engine-python=359.0.0-0 --allow-d'' @
              ''owngrades'')
             dbg))
       (\<lambda>_. return ())\<close>

definition grant_required_permissions :: \<open>'w externals \<Rightarrow> stage \<Rightarrow> bool \<Rightarrow> 'w state \<Rightarrow> unit result \<times> 'w state\<close> where
  \<open>grant_required_permissions x stage dbg =
     and_then
       (execute_command x
               (mk_call ''Getting the project number''
                  (gcloud_command @
                   '' projects list     --filter="'' @
                   project_id stage @
                   ''"     --format="value(PROJECT_NUMBER)"'')
                  dbg))
       (\<lambda>(status, project_number, err).
          (let commands =
             [ gcloud_command @
                '' projects add-iam-policy-binding '' @
                project_id stage @
                ''     --member="serviceAccount:'' @
                strip project_number @
                ''@cloudbuild.gserviceaccount.com"     --role="roles/storage.objectViewer"'',
               gcloud_command @
                '' projects add-iam-policy-binding '' @
                project_id stage @
                ''     --role "roles/compute.networkUser"     --member "serviceAccount:service-'' @
                strip project_number @
                ''@gcp-sa-vpcaccess.iam.gserviceaccount.com"'',
               gcloud_command @
                '' projects add-iam-policy-binding '' @
                project_id stage @
                ''     --role "roles/compute.networkUser"     --member "serviceAccount:service-'' @
                strip project_number @
                ''@cloudservices.gserviceaccount.com"'' ];
               total_count = length commands
           in run_numbered x ''Grant required permissions'' dbg total_count 1 commands))\<close>

definition check_if_mysql_instance_exists :: \<open>'w externals \<Rightarrow> stage \<Rightarrow> bool \<Rightarrow> 'w state \<Rightarrow> bool result \<times> 'w state\<close> where
  \<open>check_if_mysql_instance_exists x stage dbg =
     and_then
       (execute_command x
          ((mk_call ''Check if MySQL instance already exists''
             (gcloud_command @
              '' sql instances describe --verbosity critical     --project='' @
              database_project stage @
              '' '' @
              database_instance_name stage @
              ''     | grep -q '' @
              sq @
              database_instance_name stage @
              sq)
             dbg)\<lparr>report_empty_err := False\<rparr>))
       (\<lambda>(status, out, err). return (status = 0))\<close>

definition create_mysql_instance_if_needed :: \<open>'w externals \<Rightarrow> stage \<Rightarrow> bool \<Rightarrow> 'w state \<Rightarrow> unit result \<times> 'w state\<close> where
  \<open>create_mysql_instance_if_needed x stage dbg =
     and_then (check_if_mysql_instance_exists x stage dbg)
       (\<lambda>found.
          if found then click_echo ''     MySQL instance already exists.''
          else and_then
            (execute_command x
               (mk_call ''Creating MySQL instance''
                  (gcloud_command @
                   '' beta sql instances create '' @
                   database_instance_name stage @
                   ''     --tier='' @
                   database_tier stage @
                   '' --region='' @
                   database_region stage @
                   ''     --project='' @
                   database_project stage @
                   '' --database-version MYSQL_5_7     --storage-auto-increase     --network=projec'' @
                   ''ts/'' @
                   network_project stage @
                   ''/global/networks/'' @
                   network stage @
                   ''     --availability-type='' @
                   database_ha_type stage @
                   ''     --authorized-networks='' @
                   subnet_cidr stage @
                   ''     --no-assign-ip '')
                  dbg))
            (\<lambda>_. return ()))\<close>

definition check_if_mysql_user_exists :: \<open>'w externals \<Rightarrow> stage \<Rightarrow> bool \<Rightarrow> 'w state \<Rightarrow> bool result \<times> 'w state\<close> where
  \<open>check_if_mysql_user_exists x stage dbg =
     and_then
       (execute_command x
          ((mk_call ''Check if MySQL user already exists''
             (gcloud_command @
              '' sql users list     --project='' @
              database_project stage @
              ''     --instance='' @
              database_instance_name stage @
              ''     | grep -q '' @
              sq @
              database_username stage @
              sq)
             dbg)\<lparr>report_empty_err := False\<rparr>))
       (\<lambda>(status, out, err). return (status = 0))\<close>

text \<open>
  \<open>create_mysql_user_if_needed\<close> always runs one command after its check: \<open>set-password\<close>
  when the user is there, \<open>create\<close> otherwise.
\<close>

definition create_mysql_user_if_needed :: \<open>'w externals \<Rightarrow> stage \<Rightarrow> bool \<Rightarrow> 'w state \<Rightarrow> unit result \<times> 'w state\<close> where
  \<open>create_mysql_user_if_needed x stage dbg =
     and_then (check_if_mysql_user_exists x stage dbg)
       (\<lambda>found. and_then
          (if found then click_echo ''     MySQL user already exists.'' else return ())
       (\<lambda>_.
          (let sql_users_command = (if found then ''set-password'' else ''create'');
               message = (if found then ''Setting MySQL user'' @
                              sq @
                              ''s password'' else ''Creating MySQL user'')
           in and_then
            (execute_command x
               (mk_call message
                  (gcloud_command @
                   '' sql users '' @
                   sql_users_command @
                   '' '' @
                   database_username stage @
                   ''     --host %     --instance='' @
                   database_instance_name stage @
                   ''     --password='' @
                   database_password stage @
                   ''     --project='' @
                   project_id stage)
                  dbg))
            (\<lambda>_. return ()))))\<close>

definition check_if_mysql_database_exists :: \<open>'w externals \<Rightarrow> stage \<Rightarrow> bool \<Rightarrow> 'w state \<Rightarrow> bool result \<times> 'w state\<close> where
  \<open>check_if_mysql_database_exists x stage dbg =
     and_then
       (execute_command x
          ((mk_call ''Check if MySQL database already exists''
             (gcloud_command @
              '' sql databases list     --project='' @
              project_id stage @
              ''     --instance='' @
              database_instance_name stage @
              ''     | grep -q '' @
              sq @
              database_name stage @
              sq)
             dbg)\<lparr>report_empty_err := False\<rparr>))
       (\<lambda>(status, out, err). return (status = 0))\<close>

definition create_mysql_database_if_needed :: \<open>'w externals \<Rightarrow> stage \<Rightarrow> bool \<Rightarrow> 'w state \<Rightarrow> unit result \<times> 'w state\<close> where
  \<open>create_mysql_database_if_needed x stage dbg =
     and_then (check_if_mysql_database_exists x stage dbg)
       (\<lambda>found.
          if found then click_echo ''     MySQL database already exists.''
          else and_then
            (execute_command x
               (mk_call ''Creating MySQL database''
                  (gcloud_command @
                   '' sql databases create '' @
                   database_name stage @
                   ''     --instance='' @
                   database_instance_name stage @
                   ''     --project='' @
                   project_id stage)
                  dbg))
            (\<lambda>_. return ()))\<close>

definition activate_services :: \<open>'w externals \<Rightarrow> stage \<Rightarrow> bool \<Rightarrow> 'w state \<Rightarrow> unit result \<times> 'w state\<close> where
  \<open>activate_services x stage dbg =
     and_then
       (execute_command x
               (mk_call ''Activate services''
                  (gcloud_command @
                   '' services enable     --project='' @
                   project_id stage @
                   ''     analytics.googleapis.com     analyticsreporting.googleapis.com     bigque'' @
                   ''ry-json.googleapis.com     cloudapis.googleapis.com     logging.googleapis.com'' @
                   ''     storage-api.googleapis.com     storage-component.googleapis.com     sqlad'' @
                   ''min.googleapis.com     cloudscheduler.googleapis.com     cloudbuild.googleapis'' @
                   ''.com     servicenetworking.googleapis.com     compute.googleapis.com     vpcac'' @
                   ''cess.googleapis.com     dns.googleapis.com     appengine.googleapis.com'')
                  dbg))
       (\<lambda>_. return ())\<close>

definition download_config_files :: \<open>'w externals \<Rightarrow> stage \<Rightarrow> bool \<Rightarrow> 'w state \<Rightarrow> unit result \<times> 'w state\<close> where
  \<open>download_config_files x stage dbg =
     (let stage_file_path = get_stage_file x (stage_name stage);
          service_account_file_path = get_service_account_file x stage
      in and_then
       (execute_command x
               (mk_call ''Download configuration files''
                  (''cloudshell download-files     "'' @
                   stage_file_path @
                   ''"     "'' @
                   service_account_file_path @
                   ''"'')
                  dbg))
       (\<lambda>_. return ()))\<close>

subsection \<open>The calls of the steps that check before they create\<close>

text \<open>
  The arguments the steps above give to \<open>shared.execute_command\<close>, by name, so that a
  property of the control plane can speak of them. The first one of a step is its
  existence check, made with \<open>report_empty_err=False\<close>.
\<close>

definition appengine_describe_call :: \<open>stage \<Rightarrow> bool \<Rightarrow> call\<close> where
  \<open>appengine_describe_call stage dbg =
     (mk_call ''Check if App Engine already exists''
        (gcloud_command @
              '' app describe --verbosity critical --project='' @
              project_id stage @
              '' | grep -q '' @
              sq @
              ''codeBucket'' @
              sq)
        dbg)\<lparr>report_empty_err := False\<rparr>\<close>

definition appengine_create_call :: \<open>stage \<Rightarrow> bool \<Rightarrow> call\<close> where
  \<open>appengine_create_call stage dbg =
     mk_call ''Create the App Engine instance''
        (gcloud_command @
              '' app create --project='' @
              gae_project stage @
              '' --region='' @
              gae_region stage)
        dbg\<close>

definition vpc_describe_call :: \<open>stage \<Rightarrow> bool \<Rightarrow> call\<close> where
  \<open>vpc_describe_call stage dbg =
     (mk_call ''Check if VPC already exists''
        (gcloud_command @
              '' compute networks describe '' @
              network stage @
              '' --verbosity critical --project='' @
              network_project stage)
        dbg)\<lparr>report_empty_err := False\<rparr>\<close>

definition vpc_create_call :: \<open>stage \<Rightarrow> bool \<Rightarrow> call\<close> where
  \<open>vpc_create_call stage dbg =
     mk_call ''Create the VPC''
        (gcloud_command @
              '' compute networks create '' @
              network stage @
              '' --project='' @
              network_project stage @
              ''     --subnet-mode=custom     --bgp-routing-mode=regional     --mtu=1460'')
        dbg\<close>

definition vpc_address_call :: \<open>stage \<Rightarrow> bool \<Rightarrow> call\<close> where
  \<open>vpc_address_call stage dbg =
     mk_call ''Allocating an IP address range''
        (gcloud_command @
              '' compute addresses create '' @
              network stage @
              ''-psc       --global       --purpose=VPC_PEERING       --addresses=192.168.0.0 '' @
              ''      --prefix-length=24       --network='' @
              network stage)
        dbg\<close>

definition peering_list_call :: \<open>stage \<Rightarrow> bool \<Rightarrow> call\<close> where
  \<open>peering_list_call stage dbg =
     (mk_call ''Check if VPC Peering exists''
        (gcloud_command @
              '' services vpc-peerings list --network='' @
              network stage @
              '' --verbosity critical --project='' @
              network_project stage @
              '' | grep '' @
              network stage @
              ''-psc'')
        dbg)\<lparr>report_empty_err := False\<rparr>\<close>

definition peering_call :: \<open>bool \<Rightarrow> stage \<Rightarrow> bool \<Rightarrow> call\<close> where
  \<open>peering_call peering stage dbg =
     mk_call ''Creating or updating the private connection''
        (if peering then
           gcloud_command @
           '' services vpc-peerings update       --service=servicenetworking.googleapis.com'' @
           ''       --ranges='' @
           network stage @
           ''-psc       --network='' @
           network stage @
           ''       --force       --project='' @
           network_project stage
         else
           gcloud_command @
           '' services vpc-peerings connect         --service=servicenetworking.googleapis.'' @
           ''com         --ranges='' @
           network stage @
           ''-psc         --network='' @
           network stage @
           ''         --project='' @
           network_project stage)
        dbg\<close>

definition subnet_describe_call :: \<open>stage \<Rightarrow> bool \<Rightarrow> call\<close> where
  \<open>subnet_describe_call stage dbg =
     (mk_call ''Check if VPC Subnet already exists''
        (gcloud_command @
              '' compute networks subnets describe '' @
              subnet stage @
              '' --verbosity critical --project='' @
              network_project stage @
              ''     --region='' @
              subnet_region stage)
        dbg)\<lparr>report_empty_err := False\<rparr>\<close>

definition subnet_create_call :: \<open>stage \<Rightarrow> bool \<Rightarrow> call\<close> where
  \<open>subnet_create_call stage dbg =
     mk_call ''Create the VPC App Subnet''
        (gcloud_command @
              '' compute networks subnets create '' @
              subnet stage @
              ''       --network='' @
              network stage @
              ''       --range='' @
              subnet_cidr stage @
              ''       --region='' @
              subnet_region stage @
              ''       --project='' @
              network_project stage)
        dbg\<close>

definition connector_subnet_describe_call :: \<open>stage \<Rightarrow> bool \<Rightarrow> call\<close> where
  \<open>connector_subnet_describe_call stage dbg =
     (mk_call ''Check if VPC Subnet already exists''
        (gcloud_command @
              '' compute networks subnets describe '' @
              connector_subnet stage @
              '' --verbosity critical --project='' @
              network_project stage @
              ''     --region='' @
              subnet_region stage)
        dbg)\<lparr>report_empty_err := False\<rparr>\<close>

definition connector_subnet_create_call :: \<open>stage \<Rightarrow> bool \<Rightarrow> call\<close> where
  \<open>connector_subnet_create_call stage dbg =
     mk_call ''Create the VPC Connector Subnet''
        (gcloud_command @
              '' compute networks subnets create '' @
              connector_subnet stage @
              ''       --network='' @
              network stage @
              ''       --range='' @
              connector_cidr stage @
              ''       --region='' @
              subnet_region stage @
              ''       --project='' @
              network_project stage)
        dbg\<close>

definition vpc_connector_describe_call :: \<open>stage \<Rightarrow> bool \<Rightarrow> call\<close> where
  \<open>vpc_connector_describe_call stage dbg =
     (mk_call ''Check if VPC Connector already exists''
        (gcloud_command @
              '' compute networks vpc-access connectors describe '' @
              connector stage @
              '' --verbosity critical --project='' @
              network_project stage @
              '' | grep '' @
              connector stage)
        dbg)\<lparr>report_empty_err := False\<rparr>\<close>

definition vpc_connector_create_call :: \<open>stage \<Rightarrow> bool \<Rightarrow> call\<close> where
  \<open>vpc_connector_create_call stage dbg =
     mk_call ''Create the VPC Connector''
        (gcloud_command @
              '' compute networks vpc-access connectors create '' @
              connector stage @
              ''         --region '' @
              subnet_region stage @
              ''         --subnet '' @
              connector_subnet stage @
              ''         --subnet-project '' @
              network_project stage @
              ''         --min-instances '' @
              connector_min_instances stage @
              ''         --max-instances '' @
              connector_max_instances stage @
              ''         --machine-type '' @
              connector_machine_type stage)
        dbg\<close>

definition service_account_key_call :: \<open>'w externals \<Rightarrow> stage \<Rightarrow> bool \<Rightarrow> call\<close> where
  \<open>service_account_key_call x stage dbg =
     mk_call ''Create the service account key''
        (gcloud_command @
              '' iam service-accounts keys create "'' @
              get_service_account_file x stage @
              ''"     --iam-account="'' @
              project_id stage @
              ''@appspot.gserviceaccount.com"     --key-file-type='' @
              sq @
              ''json'' @
              sq @
              ''     --project='' @
              project_id stage)
        dbg\<close>

definition mysql_instance_describe_call :: \<open>stage \<Rightarrow> bool \<Rightarrow> call\<close> where
  \<open>mysql_instance_describe_call stage dbg =
     (mk_call ''Check if MySQL instance already exists''
        (gcloud_command @
              '' sql instances describe --verbosity critical     --project='' @
              database_project stage @
              '' '' @
              database_instance_name stage @
              ''     | grep -q '' @
              sq @
              database_instance_name stage @
              sq)
        dbg)\<lparr>report_empty_err := False\<rparr>\<close>

definition mysql_instance_create_call :: \<open>stage \<Rightarrow> bool \<Rightarrow> call\<close> where
  \<open>mysql_instance_create_call stage dbg =
     mk_call ''Creating MySQL instance''
        (gcloud_command @
              '' beta sql instances create '' @
              database_instance_name stage @
              ''     --tier='' @
              database_tier stage @
              '' --region='' @
              database_region stage @
              ''     --project='' @
              database_project stage @
              '' --database-version MYSQL_5_7     --storage-auto-increase     --network=projec'' @
              ''ts/'' @
              network_project stage @
              ''/global/networks/'' @
              network stage @
              ''     --availability-type='' @
              database_ha_type stage @
              ''     --authorized-networks='' @
              subnet_cidr stage @
              ''     --no-assign-ip '')
        dbg\<close>

definition mysql_user_list_call :: \<open>stage \<Rightarrow> bool \<Rightarrow> call\<close> where
  \<open>mysql_user_list_call stage dbg =
     (mk_call ''Check if MySQL user already exists''
        (gcloud_command @
              '' sql users list     --project='' @
              database_project stage @
              ''     --instance='' @
              database_instance_name stage @
              ''     | grep -q '' @
              sq @
              database_username stage @
              sq)
        dbg)\<lparr>report_empty_err := False\<rparr>\<close>

definition mysql_user_call :: \<open>bool \<Rightarrow> stage \<Rightarrow> bool \<Rightarrow> call\<close> where
  \<open>mysql_user_call found stage dbg =
     (let sql_users_command = (if found then ''set-password'' else ''create'');
          message = (if found then ''Setting MySQL user'' @
                              sq @
                              ''s password'' else ''Creating MySQL user'')
      in mk_call message
           (gcloud_command @
            '' sql users '' @
            sql_users_command @
            '' '' @
            database_username stage @
            ''     --host %     --instance='' @
            database_instance_name stage @
            ''     --password='' @
            database_password stage @
            ''     --project='' @
            project_id stage)
           dbg)\<close>

definition mysql_database_list_call :: \<open>stage \<Rightarrow> bool \<Rightarrow> call\<close> where
  \<open>mysql_database_list_call stage dbg =
     (mk_call ''Check if MySQL database already exists''
        (gcloud_command @
              '' sql databases list     --project='' @
              project_id stage @
              ''     --instance='' @
              database_instance_name stage @
              ''     | grep -q '' @
              sq @
              database_name stage @
              sq)
        dbg)\<lparr>report_empty_err := False\<rparr>\<close>

definition mysql_database_create_call :: \<open>stage \<Rightarrow> bool \<Rightarrow> call\<close> where
  \<open>mysql_database_create_call stage dbg =
     mk_call ''Creating MySQL database''
        (gcloud_command @
              '' sql databases create '' @
              database_name stage @
              ''     --instance='' @
              database_instance_name stage @
              ''     --project='' @
              project_id stage)
        dbg\<close>

subsection \<open>Pipelines\<close>

text \<open>Calling one component of a list: the function of that name.\<close>

fun call_component :: \<open>'w externals \<Rightarrow> component \<Rightarrow> stage \<Rightarrow> bool \<Rightarrow> 'w state \<Rightarrow> unit result \<times> 'w state\<close> where
  \<open>call_component x Downgrade_app_engine_python = downgrade_app_engine_python x\<close>
| \<open>call_component x Activate_services = activate_services x\<close>
| \<open>call_component x Create_vpc = create_vpc x\<close>
| \<open>call_component x Create_subnet = create_subnet x\<close>
| \<open>call_component x Create_vpc_connector = create_vpc_connector x\<close>
| \<open>call_component x Create_appengine = create_appengine x\<close>
| \<open>call_component x Create_service_account_key_if_needed = create_service_account_key_if_needed x\<close>
| \<open>call_component x Grant_required_permissions = grant_required_permissions x\<close>
| \<open>call_component x Create_mysql_instance_if_needed = create_mysql_instance_if_needed x\<close>
| \<open>call_component x Create_mysql_user_if_needed = create_mysql_user_if_needed x\<close>
| \<open>call_component x Create_mysql_database_if_needed = create_mysql_database_if_needed x\<close>
| \<open>call_component x Download_config_files = download_config_files x\<close>
| \<open>call_component x c = unmodelled_component x c\<close>

text \<open>
  \<open>for component in components: component(stage, debug=debug)\<close>. The loop notes each
  component it calls in the log \<open>invoked\<close>; a component that exits or raises ends it.
\<close>

fun run_components :: \<open>'w externals \<Rightarrow> component list \<Rightarrow> stage \<Rightarrow> bool \<Rightarrow> 'w state \<Rightarrow> unit result \<times> 'w state\<close> where
  \<open>run_components x [] stage dbg s = (Return (), s)\<close>
| \<open>run_components x (c # cs) stage dbg s =
     (case call_component x c stage dbg s of
        (r, s') \<Rightarrow>
          (let s'' = s'\<lparr>invoked := invoked s @ [c]\<rparr> in
           case r of
             Return _ \<Rightarrow> run_components x cs stage dbg s''
           | Exit n \<Rightarrow> (Exit n, s'')
           | Raise e \<Rightarrow> (Raise e, s'')))\<close>

definition setup_components :: \<open>component list\<close> where
  \<open>setup_components =
     [ Downgrade_app_engine_python,
       Activate_services,
       Create_vpc,
       Create_subnet,
       Create_vpc_connector,
       Create_appengine,
       Create_service_account_key_if_needed,
       Grant_required_permissions,
       Create_mysql_instance_if_needed,
       Create_mysql_user_if_needed,
       Create_mysql_database_if_needed,
       Download_config_files ]\<close>

definition not_owner_message :: string where
  \<open>not_owner_message =
     ''     This user doesn'' @
     sq @
     ''t have the owner role. '' @
     [CHR 0x0A] @
     ''     Only owners can deploy this application.'' @
     [CHR 0x0A] @
     ''     Exiting setup.''\<close>

text \<open>
  The command \<open>setup\<close>. The result of \<open>fetch_stage_or_default\<close> is unpacked into two names
  before \<open>stage\<close> is compared with \<open>None\<close>: unpacking \<open>None\<close> raises \<open>TypeError\<close>.
\<close>

definition cloud_setup :: \<open>'w externals \<Rightarrow> string option \<Rightarrow> bool \<Rightarrow> 'w state \<Rightarrow> unit result \<times> 'w state\<close> where
  \<open>cloud_setup x name_opt dbg =
     and_then (click_echo ''>>>> Setup'')
       (\<lambda>_. and_then (fetch_stage_or_default x name_opt dbg)
       (\<lambda>fetched.
          case fetched of
            None \<Rightarrow> raise TypeError
          | Some (name, None) \<Rightarrow> exit 1
          | Some (name, Some stage_module) \<Rightarrow>
              (let stage = before_hook x stage_module name;
                   components = setup_components
               in and_then (confirm_authorized_user_owner_role x stage dbg)
                 (\<lambda>owner.
                    if owner then
                      and_then (click_echo ''     Authorized user confirmed as owner.'')
                        (\<lambda>_. and_then (run_components x components stage dbg)
                        (\<lambda>_. click_echo ''Done.''))
                    else and_then (click_echo not_owner_message) (\<lambda>_. exit 1)))))\<close>


definition declared_deploy_components :: \<open>component list\<close> where
  \<open>declared_deploy_components =
     [ Install_required_packages,
       Display_workdir,
       Copy_src_to_workdir,
       Install_backends_dependencies,
       Deploy_frontend,
       Deploy_backends,
       Deploy_dispatch_rules,
       Download_cloud_sql_proxy,
       Start_cloud_sql_proxy,
       Prepare_flask_envars,
       Run_flask_db_upgrade,
       Run_flask_db_seeds,
       Stop_cloud_sql_proxy ]\<close>

text \<open>
  The two \<open>if skip_... and (... in components): components.remove(...)\<close> of \<open>deploy\<close>, which
  come before its loop; \<open>list.remove\<close> takes the first occurrence out.
\<close>

definition deploy_components :: \<open>bool \<Rightarrow> bool \<Rightarrow> component list\<close> where
  \<open>deploy_components skip_deploy_backends skip_deploy_frontend =
     (let components = declared_deploy_components;
          components =
            (if skip_deploy_backends \<and> Deploy_backends \<in> set components
             then remove1 Deploy_backends components else components);
          components =
            (if skip_deploy_frontend \<and> Deploy_frontend \<in> set components
             then remove1 Deploy_frontend components else components)
      in components)\<close>

definition deploy :: \<open>'w externals \<Rightarrow> string option \<Rightarrow> bool \<Rightarrow> bool \<Rightarrow> bool \<Rightarrow> 'w state \<Rightarrow> unit result \<times> 'w state\<close> where
  \<open>deploy x name_opt dbg skip_deploy_backends skip_deploy_frontend =
     and_then (click_echo ''>>>> Deploy'')
       (\<lambda>_. and_then (fetch_stage_or_default x name_opt dbg)
       (\<lambda>fetched.
          case fetched of
            None \<Rightarrow> raise TypeError
          | Some (name, None) \<Rightarrow>
              and_then (click_echo ''Fix that issue by running: $ crmint cloud setup'') (\<lambda>_. exit 1)
          | Some (name, Some stage_module) \<Rightarrow>
              (let stage = before_hook x stage_module name;
                   components = deploy_components skip_deploy_backends skip_deploy_frontend
               in and_then (run_components x components stage dbg)
                    (\<lambda>_. click_echo ''Done.''))))\<close>


definition reset_components :: \<open>component list\<close> where
  \<open>reset_components =
     [ Install_required_packages,
       Display_workdir,
       Copy_src_to_workdir,
       Install_backends_dependencies,
       Download_cloud_sql_proxy,
       Start_cloud_sql_proxy,
       Prepare_flask_envars,
       Run_reset_pipelines,
       Stop_cloud_sql_proxy ]\<close>

definition reset :: \<open>'w externals \<Rightarrow> string option \<Rightarrow> bool \<Rightarrow> 'w state \<Rightarrow> unit result \<times> 'w state\<close> where
  \<open>reset x name_opt dbg =
     and_then (click_echo ''>>>> Reset pipelines'')
       (\<lambda>_. and_then (fetch_stage_or_default x name_opt dbg)
       (\<lambda>fetched.
          case fetched of
            None \<Rightarrow> raise TypeError
          | Some (name, None) \<Rightarrow>
              and_then (click_echo ''Fix that issue by running: `$ crmint cloud setup`'') (\<lambda>_. exit 1)
          | Some (name, Some stage_module) \<Rightarrow>
              (let stage = before_hook x stage_module name;
                   components = reset_components
               in and_then (run_components x components stage dbg)
                    (\<lambda>_. click_echo ''Done.''))))\<close>



section \<open>A small installation for concrete runs\<close>

text \<open>
  A toy control plane, used where a property is run on a concrete input. Its state is the
  list of the step names of the action calls made so far. A call with
  \<open>report_empty_err=False\<close> is a check: it changes nothing and has status 0 exactly when
  the action that creates what it looks for has run; the owner check answers as the flag
  \<open>owner\<close> says. Any other call is an action: it succeeds and is appended to the list; the
  action that creates the service account key also writes the key file of the stage
  \<open>demo\<close>.
\<close>

definition demo_stage :: stage where
  "demo_stage =
     \<lparr>stage_name = ''demo'', project_id = ''demo-project'', gae_project = ''demo-project'',
      gae_region = ''us-central1'', network = ''crmint-vpc'', network_project = ''demo-project'',
      subnet = ''crmint-app-subnet'', subnet_region = ''us-central1'',
      subnet_cidr = ''10.0.0.0/28'', connector = ''crmint-connector'',
      connector_subnet = ''crmint-connector-subnet'', connector_cidr = ''10.0.0.16/28'',
      connector_min_instances = ''2'', connector_max_instances = ''3'',
      connector_machine_type = ''e2-micro'', database_project = ''demo-project'',
      database_instance_name = ''crmintapp-db'', database_tier = ''db-g1-small'',
      database_region = ''us-central1'', database_ha_type = ''zonal'',
      database_username = ''crmintapp'', database_password = ''k3x9q2m7c1z8w4p6'',
      database_name = ''crmintapp-db''\<rparr>"

fun contains :: "string \<Rightarrow> string \<Rightarrow> bool" where
  "contains pat [] = (pat = [])"
| "contains pat (c # cs) = (take (length pat) (c # cs) = pat \<or> contains pat cs)"

definition toy_requires :: "(string \<times> string) list" where
  "toy_requires =
     [ (''Check if App Engine already exists'', ''Create the App Engine instance''),
       (''Check if VPC already exists'', ''Create the VPC''),
       (''Check if VPC Peering exists'', ''Creating or updating the private connection''),
       (''Check if VPC Connector already exists'', ''Create the VPC Connector''),
       (''Check if MySQL instance already exists'', ''Creating MySQL instance''),
       (''Check if MySQL user already exists'', ''Creating MySQL user''),
       (''Check if MySQL database already exists'', ''Creating MySQL database'') ]"

definition toy_present :: "bool \<Rightarrow> call \<Rightarrow> string list \<Rightarrow> bool" where
  "toy_present owner c w =
     (if step_name c = ''Check if authorized user is owner'' then owner
      else if step_name c = ''Check if VPC Subnet already exists'' then
        (if contains ''describe crmint-connector-subnet '' (command c)
         then ''Create the VPC Connector Subnet'' \<in> set w
         else ''Create the VPC App Subnet'' \<in> set w)
      else (case map_of toy_requires (step_name c) of
              None \<Rightarrow> False
            | Some a \<Rightarrow> a \<in> set w))"

definition toy_output :: "string \<Rightarrow> string" where
  "toy_output name =
     (if name = ''Load bash environment variables'' then ''database_tier=db-n1-standard-2''
      else if name = ''Getting authorized user'' then ''admin@example.com'' @ [CHR 0x0A]
      else if name = ''Getting the project number'' then ''123456'' @ [CHR 0x0A]
      else '''')"

definition toy_shell :: "bool \<Rightarrow> (string list) executor" where
  "toy_shell owner c fs w =
     (if report_empty_err c
      then (Return (0, toy_output (step_name c), ''''),
            (if step_name c = ''Create the service account key''
             then fs(''/crmint/backends/data/demo.json'' \<mapsto> ''{}'') else fs),
            w @ [step_name c])
      else (Return (if toy_present owner c w then 0 else 1, '''', ''''), fs, w))"

text \<open>
  A control plane that keeps nothing: every action succeeds, every check answers that the
  resource is missing.
\<close>

definition amnesic_shell :: "(string list) executor" where
  "amnesic_shell c fs w = (Return (if report_empty_err c then 0 else 1, [], []), fs, w)"

text \<open>A template with two of the fields of the stage file, the tier and the password.\<close>

definition demo_template :: "module \<Rightarrow> exn + string" where
  "demo_template context =
     (case context ''database_tier'' of
        None \<Rightarrow> Inl (KeyError ''database_tier'')
      | Some tier \<Rightarrow>
          (case context ''database_password'' of
             None \<Rightarrow> Inl (KeyError ''database_password'')
           | Some password \<Rightarrow>
               Inr (''database_tier = '' @ py_str tier @ [CHR 0x0A] @
                    ''database_password = '' @ py_str password)))"

definition demo_stage_path :: "string \<Rightarrow> string" where
  "demo_stage_path n = ''/crmint/cli/stages/'' @ n @ ''.py''"

definition demo_key_path :: "stage \<Rightarrow> string" where
  "demo_key_path st = ''/crmint/backends/data/'' @ stage_name st @ ''.json''"

text \<open>The name of the function each component is.\<close>

fun component_name :: "component \<Rightarrow> string" where
  "component_name Downgrade_app_engine_python = ''downgrade_app_engine_python''"
| "component_name Activate_services = ''activate_services''"
| "component_name Create_vpc = ''create_vpc''"
| "component_name Create_subnet = ''create_subnet''"
| "component_name Create_vpc_connector = ''create_vpc_connector''"
| "component_name Create_appengine = ''create_appengine''"
| "component_name Create_service_account_key_if_needed = ''create_service_account_key_if_needed''"
| "component_name Grant_required_permissions = ''grant_required_permissions''"
| "component_name Create_mysql_instance_if_needed = ''create_mysql_instance_if_needed''"
| "component_name Create_mysql_user_if_needed = ''create_mysql_user_if_needed''"
| "component_name Create_mysql_database_if_needed = ''create_mysql_database_if_needed''"
| "component_name Download_config_files = ''download_config_files''"
| "component_name Install_required_packages = ''install_required_packages''"
| "component_name Display_workdir = ''display_workdir''"
| "component_name Copy_src_to_workdir = ''copy_src_to_workdir''"
| "component_name Install_backends_dependencies = ''install_backends_dependencies''"
| "component_name Deploy_frontend = ''deploy_frontend''"
| "component_name Deploy_backends = ''deploy_backends''"
| "component_name Deploy_dispatch_rules = ''deploy_dispatch_rules''"
| "component_name Download_cloud_sql_proxy = ''download_cloud_sql_proxy''"
| "component_name Start_cloud_sql_proxy = ''start_cloud_sql_proxy''"
| "component_name Prepare_flask_envars = ''prepare_flask_envars''"
| "component_name Run_flask_db_upgrade = ''run_flask_db_upgrade''"
| "component_name Run_flask_db_seeds = ''run_flask_db_seeds''"
| "component_name Stop_cloud_sql_proxy = ''stop_cloud_sql_proxy''"
| "component_name Run_reset_pipelines = ''run_reset_pipelines''"

text \<open>
  In the toy installation a component of the deploy and reset pipelines leaves its name
  on the control plane, so that a run shows which bodies were entered, and in which order.
\<close>

definition demo_externals :: "bool \<Rightarrow> (string list) externals" where
  "demo_externals owner =
     \<lparr>execute_command_impl = toy_shell owner,
      get_default_stage_name = ''demo-project'',
      get_stage_file = demo_stage_path,
      check_stage_file = (\<lambda>fs n. fs (demo_stage_path n) \<noteq> None),
      get_stage_object = (\<lambda>fs n. map_option env_lines_to_dict (fs (demo_stage_path n))),
      before_hook = (\<lambda>m n. demo_stage\<lparr>stage_name := n\<rparr>),
      check_service_account_file = (\<lambda>fs st. fs (demo_key_path st) \<noteq> None),
      get_service_account_file = demo_key_path,
      STAGE_DIR = ''/crmint/cli/stages'',
      PROJECT_DIR = ''/crmint'',
      STAGE_FILE_TEMPLATE_format = demo_template,
      unmodelled_component =
        (\<lambda>c st dbg s. (Return (), s\<lparr>cloud := cloud s @ [component_name c]\<rparr>))\<rparr>"

definition amnesic_externals :: "(string list) externals" where
  "amnesic_externals = (demo_externals True)\<lparr>execute_command_impl := amnesic_shell\<rparr>"

definition demo_process :: process where
  "demo_process =
     \<lparr>environ = Map.empty, default_stage_name = ''demo-project'',
      random_chars = ''k3x9q2m7c1z8w4p6'', base_dir = ''/crmint/cli''\<rparr>"

definition demo_state :: "(string \<rightharpoonup> string) \<Rightarrow> (string list) state" where
  "demo_state fs = \<lparr>files = fs, cloud = [], echoed = [], calls = [], invoked = []\<rparr>"

text \<open>Two stage directories: one with a stage file tagged \<open>v3.0\<close>, one with a legacy script only.\<close>

definition demo_v3_files :: "string \<rightharpoonup> string" where
  "demo_v3_files = [demo_stage_path ''demo'' \<mapsto> ''spec_version=v3.0'']"

definition demo_legacy_files :: "string \<rightharpoonup> string" where
  "demo_legacy_files =
     [''/crmint/scripts/variables/stages/demo.sh'' \<mapsto> ''database_tier=db-n1-standard-2'']"


text \<open>A stage directory with a stage file of the current format.\<close>

definition demo_v2_files :: "string \<rightharpoonup> string" where
  "demo_v2_files = [demo_stage_path ''demo'' \<mapsto> ''spec_version=v2.0'']"



section \<open>Notions used to state the properties\<close>

text \<open>\<open>precedes xs a b\<close>: \<open>b\<close> occurs in \<open>xs\<close> after the first occurrence of \<open>a\<close>.\<close>

definition precedes :: "'a list \<Rightarrow> 'a \<Rightarrow> 'a \<Rightarrow> bool" where
  "precedes xs a b = (a \<in> set xs \<and> b \<in> set (drop 1 (dropWhile (\<lambda>c. c \<noteq> a) xs)))"

text \<open>The calls made between two states, and among them the checks and the actions.\<close>

definition new_calls :: "'w state \<Rightarrow> 'w state \<Rightarrow> call list" where
  "new_calls s s' = drop (length (calls s)) (calls s')"

definition probes :: "call list \<Rightarrow> call list" where
  "probes cs = filter (\<lambda>c. \<not> report_empty_err c) cs"

definition actions :: "call list \<Rightarrow> call list" where
  "actions cs = filter report_empty_err cs"

text \<open>
  A check reports its resource present: it returns true and leaves the files and the
  control plane as they were.
\<close>

definition reports_present :: "('w state \<Rightarrow> bool result \<times> 'w state) \<Rightarrow> 'w state \<Rightarrow> bool" where
  "reports_present probe s =
     (fst (probe s) = Return True \<and> files (snd (probe s)) = files s \<and> cloud (snd (probe s)) = cloud s)"

text \<open>
  A run from \<open>s\<close> that returns, leaves the files and the control plane as they were, and
  makes \<open>n\<close> calls, all of them checks.
\<close>

definition only_probes :: "nat \<Rightarrow> ('w state \<Rightarrow> unit result \<times> 'w state) \<Rightarrow> 'w state \<Rightarrow> bool" where
  "only_probes n run s =
     (fst (run s) = Return () \<and> files (snd (run s)) = files s \<and> cloud (snd (run s)) = cloud s
      \<and> length (new_calls s (snd (run s))) = n
      \<and> length (probes (new_calls s (snd (run s)))) = n
      \<and> actions (new_calls s (snd (run s))) = [])"

text \<open>
  The idempotence property as the specification words it, for one step run twice from
  \<open>s\<close>: the second run leaves the resource state of the first, makes no action call and
  exactly one check.
\<close>

definition second_run_is_one_probe :: "('w state \<Rightarrow> unit result \<times> 'w state) \<Rightarrow> 'w state \<Rightarrow> bool" where
  "second_run_is_one_probe run s =
     (let s1 = snd (run s); s2 = snd (run s1)
      in files s2 = files s1 \<and> cloud s2 = cloud s1
         \<and> actions (new_calls s1 s2) = [] \<and> length (probes (new_calls s1 s2)) = 1)"

text \<open>
  What is asked of the shell and of the control plane behind it. The check \<open>p\<close> finds its
  resource when it returns status 0. A check changes nothing. The action \<open>a\<close> creates what
  \<open>p\<close> looks for: whenever \<open>a\<close> returns, \<open>p\<close> finds it. The action \<open>a\<close> keeps what \<open>p\<close> looks for:
  when \<open>p\<close> finds it before \<open>a\<close>, and \<open>a\<close> returns, \<open>p\<close> finds it after.
\<close>

definition present :: "'w executor \<Rightarrow> call \<Rightarrow> (string \<rightharpoonup> string) \<Rightarrow> 'w \<Rightarrow> bool" where
  "present ex p fs w =
     (case fst (ex p fs w) of Return (status, out, err) \<Rightarrow> status = 0 | _ \<Rightarrow> False)"

definition read_only_probes :: "'w executor \<Rightarrow> bool" where
  "read_only_probes ex = (\<forall>c fs w. \<not> report_empty_err c \<longrightarrow> snd (ex c fs w) = (fs, w))"

definition creates :: "'w executor \<Rightarrow> call \<Rightarrow> call \<Rightarrow> bool" where
  "creates ex a p =
     (\<forall>fs w r fs' w'. ex a fs w = (Return r, fs', w') \<longrightarrow> present ex p fs' w')"

definition keeps_present :: "'w executor \<Rightarrow> call \<Rightarrow> call \<Rightarrow> bool" where
  "keeps_present ex a p =
     (\<forall>fs w r fs' w'. present ex p fs w \<longrightarrow> ex a fs w = (Return r, fs', w')
        \<longrightarrow> present ex p fs' w')"

text \<open>
  For each step that checks before it creates: its creation commands create what its
  check looks for, and the commands that follow in the same step keep it. For the service
  account key, looked for among the files: the command leaves the key file in place.
\<close>

fun plane_law :: "'w externals \<Rightarrow> component \<Rightarrow> stage \<Rightarrow> bool \<Rightarrow> bool" where
  "plane_law x Create_appengine stage dbg =
     creates (execute_command_impl x) (appengine_create_call stage dbg)
       (appengine_describe_call stage dbg)"
| "plane_law x Create_vpc stage dbg =
     (creates (execute_command_impl x) (vpc_create_call stage dbg) (vpc_describe_call stage dbg)
      \<and> keeps_present (execute_command_impl x) (vpc_address_call stage dbg)
          (vpc_describe_call stage dbg)
      \<and> keeps_present (execute_command_impl x) (peering_call True stage dbg)
          (vpc_describe_call stage dbg)
      \<and> keeps_present (execute_command_impl x) (peering_call False stage dbg)
          (vpc_describe_call stage dbg))"
| "plane_law x Create_subnet stage dbg =
     (creates (execute_command_impl x) (subnet_create_call stage dbg)
        (subnet_describe_call stage dbg)
      \<and> keeps_present (execute_command_impl x) (connector_subnet_create_call stage dbg)
          (subnet_describe_call stage dbg)
      \<and> creates (execute_command_impl x) (connector_subnet_create_call stage dbg)
          (connector_subnet_describe_call stage dbg))"
| "plane_law x Create_vpc_connector stage dbg =
     creates (execute_command_impl x) (vpc_connector_create_call stage dbg)
       (vpc_connector_describe_call stage dbg)"
| "plane_law x Create_service_account_key_if_needed stage dbg =
     (\<forall>fs w r fs' w'.
        execute_command_impl x (service_account_key_call x stage dbg) fs w = (Return r, fs', w')
        \<longrightarrow> check_service_account_file x fs' stage)"
| "plane_law x Create_mysql_instance_if_needed stage dbg =
     creates (execute_command_impl x) (mysql_instance_create_call stage dbg)
       (mysql_instance_describe_call stage dbg)"
| "plane_law x Create_mysql_user_if_needed stage dbg =
     (creates (execute_command_impl x) (mysql_user_call False stage dbg)
        (mysql_user_list_call stage dbg)
      \<and> keeps_present (execute_command_impl x) (mysql_user_call True stage dbg)
          (mysql_user_list_call stage dbg))"
| "plane_law x Create_mysql_database_if_needed stage dbg =
     creates (execute_command_impl x) (mysql_database_create_call stage dbg)
       (mysql_database_list_call stage dbg)"
| "plane_law x c stage dbg = True"

text \<open>
  The loop over the components, said without the loop: each component of the list in
  turn, noted in the log \<open>invoked\<close> once it has come back; the first that exits or raises
  ends the sequence.
\<close>

definition noted :: "component \<Rightarrow> ('w state \<Rightarrow> unit result \<times> 'w state) \<Rightarrow> 'w state \<Rightarrow> unit result \<times> 'w state" where
  "noted c m s = (case m s of (r, s') \<Rightarrow> (r, s'\<lparr>invoked := invoked s @ [c]\<rparr>))"

fun in_sequence :: "('s \<Rightarrow> unit result \<times> 's) list \<Rightarrow> 's \<Rightarrow> unit result \<times> 's" where
  "in_sequence [] = return ()"
| "in_sequence (m # ms) = and_then m (\<lambda>_. in_sequence ms)"

section \<open>Sequencing\<close>

lemma and_then_Return: "m s = (Return a, s') \<Longrightarrow> and_then m f s = f a s'"
  by (simp add: and_then_def)


section \<open>Properties of the settings and of the stage files\<close>

subsection \<open>The names the settings module has\<close>

lemma settings_names:
  "map fst (settings p) =
     [''BASE_DIR'', ''DEBUG'', ''PROJECT'', ''REGION'', ''random_password'', ''DATABASE_NAME'',
      ''DATABASE_INSTANCE_NAME'', ''DATABASE_USER'', ''DATABASE_PASSWORD'', ''DATABASE_PUBLIC_IP'',
      ''DATABASE_BACKUP_ENABLED'', ''DATABASE_HA_ENABLED'', ''DATABASE_REGION'', ''DATABASE_TIER'',
      ''DATABASE_PROJECT'', ''NETWORK'', ''SUBNET'', ''SUBNET_CIDR'', ''CONNECTOR'', ''CONNECTOR_CIDR'',
      ''NETWORK_SERVICE_PROJECT'', ''NETWORK_HOST_PROJECT'', ''GAE_PROJECT'', ''GAE_REGION'',
      ''GAE_APP_TITLE'']"
  unfolding settings_def Let_def list.map fst_conv by (rule refl)

lemma getattr_absent: "n \<notin> set (map fst tbl) \<Longrightarrow> getattr tbl n = Inl (AttributeError n)"
  by (simp add: getattr_def map_of_eq_None_iff[THEN iffD2])

lemma getattr_present: "n \<in> set (map fst tbl) \<Longrightarrow> \<exists>v. getattr tbl n = Inr v"
  by (cases "map_of tbl n") (auto simp: getattr_def map_of_eq_None_iff)

lemma no_subnet_region:
  "getattr (settings p) ''SUBNET_REGION'' = Inl (AttributeError ''SUBNET_REGION'')"
  by (rule getattr_absent) (simp add: settings_names)

text \<open>
  The default context asks the settings module for \<open>SUBNET_REGION\<close>, which it does not
  define (nor \<open>CONNECTOR_SUBNET\<close>, \<open>CONNECTOR_MIN_INSTANCES\<close>, \<open>CONNECTOR_MAX_INSTANCES\<close>,
  \<open>CONNECTOR_MACHINE_TYPE\<close>, \<open>NETWORK_PROJECT\<close>): whatever the environment, the call raises
  at the first of them.
\<close>

lemma default_stage_context_raises:
  "default_stage_context (settings p) name = Inl (AttributeError ''SUBNET_REGION'')"
proof -
  let ?t = "settings p"
  obtain v0 where g0: "getattr ?t ''PROJECT'' = Inr v0"
    using getattr_present [of "''PROJECT''" ?t] by (auto simp: settings_names)
  obtain v1 where g1: "getattr ?t ''REGION'' = Inr v1"
    using getattr_present [of "''REGION''" ?t] by (auto simp: settings_names)
  obtain v2 where g2: "getattr ?t ''DATABASE_NAME'' = Inr v2"
    using getattr_present [of "''DATABASE_NAME''" ?t] by (auto simp: settings_names)
  obtain v3 where g3: "getattr ?t ''DATABASE_REGION'' = Inr v3"
    using getattr_present [of "''DATABASE_REGION''" ?t] by (auto simp: settings_names)
  obtain v4 where g4: "getattr ?t ''DATABASE_TIER'' = Inr v4"
    using getattr_present [of "''DATABASE_TIER''" ?t] by (auto simp: settings_names)
  obtain v5 where g5: "getattr ?t ''DATABASE_USER'' = Inr v5"
    using getattr_present [of "''DATABASE_USER''" ?t] by (auto simp: settings_names)
  obtain v6 where g6: "getattr ?t ''DATABASE_PASSWORD'' = Inr v6"
    using getattr_present [of "''DATABASE_PASSWORD''" ?t] by (auto simp: settings_names)
  obtain v7 where g7: "getattr ?t ''DATABASE_INSTANCE_NAME'' = Inr v7"
    using getattr_present [of "''DATABASE_INSTANCE_NAME''" ?t] by (auto simp: settings_names)
  obtain v8 where g8: "getattr ?t ''DATABASE_PUBLIC_IP'' = Inr v8"
    using getattr_present [of "''DATABASE_PUBLIC_IP''" ?t] by (auto simp: settings_names)
  obtain v9 where g9: "getattr ?t ''DATABASE_BACKUP_ENABLED'' = Inr v9"
    using getattr_present [of "''DATABASE_BACKUP_ENABLED''" ?t] by (auto simp: settings_names)
  obtain v10 where g10: "getattr ?t ''DATABASE_HA_ENABLED'' = Inr v10"
    using getattr_present [of "''DATABASE_HA_ENABLED''" ?t] by (auto simp: settings_names)
  obtain v11 where g11: "getattr ?t ''DATABASE_PROJECT'' = Inr v11"
    using getattr_present [of "''DATABASE_PROJECT''" ?t] by (auto simp: settings_names)
  obtain v12 where g12: "getattr ?t ''NETWORK'' = Inr v12"
    using getattr_present [of "''NETWORK''" ?t] by (auto simp: settings_names)
  obtain v13 where g13: "getattr ?t ''SUBNET'' = Inr v13"
    using getattr_present [of "''SUBNET''" ?t] by (auto simp: settings_names)
  show ?thesis
    unfolding default_stage_context_def
    by (simp only: g0 g1 g2 g3 g4 g5 g6 g7 g8 g9 g10 g11 g12 g13 no_subnet_region collect.simps sum.case map_sum.simps id_apply)
qed

lemma create_stage_file_default_raises:
  "create_stage_file x p name None s = (Raise (AttributeError ''SUBNET_REGION''), s)"
  by (simp add: create_stage_file_def create_stage_file_with_def default_stage_context_raises)

text \<open>With a settings module that has every name asked for, the default context is returned.\<close>

lemma default_stage_context_complete:
  assumes "list_all (\<lambda>n. getattr tbl n = Inr (f n))
            [''PROJECT'', ''REGION'', ''DATABASE_NAME'', ''DATABASE_REGION'',
             ''DATABASE_TIER'', ''DATABASE_USER'', ''DATABASE_PASSWORD'', ''DATABASE_INSTANCE_NAME'',
             ''DATABASE_PUBLIC_IP'', ''DATABASE_BACKUP_ENABLED'', ''DATABASE_HA_ENABLED'',
             ''DATABASE_PROJECT'', ''NETWORK'', ''SUBNET'', ''SUBNET_REGION'', ''SUBNET_CIDR'',
             ''CONNECTOR'', ''CONNECTOR_SUBNET'', ''CONNECTOR_CIDR'', ''CONNECTOR_MIN_INSTANCES'',
             ''CONNECTOR_MAX_INSTANCES'', ''CONNECTOR_MACHINE_TYPE'', ''NETWORK_PROJECT'',
             ''GAE_PROJECT'', ''GAE_REGION'', ''GAE_APP_TITLE'']"
  shows "\<exists>c. default_stage_context tbl name = Inr c"
proof -
  have eqs: "getattr tbl ''PROJECT'' = Inr (f ''PROJECT'')" "getattr tbl ''REGION'' = Inr (f ''REGION'')"
    "getattr tbl ''DATABASE_NAME'' = Inr (f ''DATABASE_NAME'')"
    "getattr tbl ''DATABASE_REGION'' = Inr (f ''DATABASE_REGION'')"
    "getattr tbl ''DATABASE_TIER'' = Inr (f ''DATABASE_TIER'')"
    "getattr tbl ''DATABASE_USER'' = Inr (f ''DATABASE_USER'')"
    "getattr tbl ''DATABASE_PASSWORD'' = Inr (f ''DATABASE_PASSWORD'')"
    "getattr tbl ''DATABASE_INSTANCE_NAME'' = Inr (f ''DATABASE_INSTANCE_NAME'')"
    "getattr tbl ''DATABASE_PUBLIC_IP'' = Inr (f ''DATABASE_PUBLIC_IP'')"
    "getattr tbl ''DATABASE_BACKUP_ENABLED'' = Inr (f ''DATABASE_BACKUP_ENABLED'')"
    "getattr tbl ''DATABASE_HA_ENABLED'' = Inr (f ''DATABASE_HA_ENABLED'')"
    "getattr tbl ''DATABASE_PROJECT'' = Inr (f ''DATABASE_PROJECT'')"
    "getattr tbl ''NETWORK'' = Inr (f ''NETWORK'')" "getattr tbl ''SUBNET'' = Inr (f ''SUBNET'')"
    "getattr tbl ''SUBNET_REGION'' = Inr (f ''SUBNET_REGION'')"
    "getattr tbl ''SUBNET_CIDR'' = Inr (f ''SUBNET_CIDR'')"
    "getattr tbl ''CONNECTOR'' = Inr (f ''CONNECTOR'')"
    "getattr tbl ''CONNECTOR_SUBNET'' = Inr (f ''CONNECTOR_SUBNET'')"
    "getattr tbl ''CONNECTOR_CIDR'' = Inr (f ''CONNECTOR_CIDR'')"
    "getattr tbl ''CONNECTOR_MIN_INSTANCES'' = Inr (f ''CONNECTOR_MIN_INSTANCES'')"
    "getattr tbl ''CONNECTOR_MAX_INSTANCES'' = Inr (f ''CONNECTOR_MAX_INSTANCES'')"
    "getattr tbl ''CONNECTOR_MACHINE_TYPE'' = Inr (f ''CONNECTOR_MACHINE_TYPE'')"
    "getattr tbl ''NETWORK_PROJECT'' = Inr (f ''NETWORK_PROJECT'')"
    "getattr tbl ''GAE_PROJECT'' = Inr (f ''GAE_PROJECT'')"
    "getattr tbl ''GAE_REGION'' = Inr (f ''GAE_REGION'')"
    "getattr tbl ''GAE_APP_TITLE'' = Inr (f ''GAE_APP_TITLE'')"
    using assms by simp_all
  show ?thesis
    unfolding default_stage_context_def
    by (simp only: eqs collect.simps sum.case map_sum.simps id_apply) blast
qed

subsection \<open>The polarity of the boolean settings\<close>

text \<open>
  Claim C10. The setting \<open>DATABASE_HA_ENABLED\<close>, which the default stage template takes for
  the database HA flag, is true exactly when the environment variable of that name is set
  to the string \<open>False\<close>; unset, or set to \<open>True\<close> or anything else, it is false. The other
  boolean settings (\<open>DEBUG\<close>, \<open>DATABASE_PUBLIC_IP\<close>, \<open>DATABASE_BACKUP_ENABLED\<close>) are true
  exactly when their variable is set to \<open>True\<close>.
\<close>

theorem database_ha_enabled_polarity:
  "getattr (settings p) ''DATABASE_HA_ENABLED''
     = Inr (Bool (environ p ''DATABASE_HA_ENABLED'' = Some ''False''))
   \<and> getattr (settings p) ''DEBUG'' = Inr (Bool (environ p ''DEBUG'' = Some ''True''))
   \<and> getattr (settings p) ''DATABASE_PUBLIC_IP''
     = Inr (Bool (environ p ''DATABASE_PUBLIC_IP'' = Some ''True''))
   \<and> getattr (settings p) ''DATABASE_BACKUP_ENABLED''
     = Inr (Bool (environ p ''DATABASE_BACKUP_ENABLED'' = Some ''True''))"
  by (simp add: settings_def getattr_def os_getenv_def Let_def split: option.splits)

subsection \<open>Creating a stage file\<close>


lemma create_new_raises:
  assumes "\<not> check_stage_file x (files s) (stage_name_or_default x name_opt)"
  shows "create x p name_opt s = (Raise (AttributeError ''SUBNET_REGION''), s)"
  using assms by (simp add: create_def and_then_def create_stage_file_default_raises)

lemma u_create_raises:
  "fst (u_create x p name_opt s) = Raise (AttributeError ''SUBNET_REGION'')
   \<and> files (snd (u_create x p name_opt s)) = files s
   \<and> cloud (snd (u_create x p name_opt s)) = cloud s
   \<and> calls (snd (u_create x p name_opt s)) = calls s"
  by (simp add: u_create_def u_create_with_def and_then_def create_stage_file_def [symmetric]
      create_stage_file_default_raises click_echo_def return_def Let_def)

lemma demo_no_stage:
  "\<not> check_stage_file (demo_externals owner) (files (demo_state Map.empty))
       (stage_name_or_default (demo_externals owner) (Some ''demo''))"
  by (simp add: demo_externals_def demo_state_def stage_name_or_default_def)

text \<open>
  Claim C9, second half, on a concrete run: with no stage file at all, \<open>create\<close> for the
  name \<open>demo\<close> raises \<open>AttributeError\<close> and leaves the files as they were: no stage file
  is written.
\<close>

theorem create_new_stage_raises:
  "create (demo_externals False) demo_process (Some ''demo'') (demo_state Map.empty)
     = (Raise (AttributeError ''SUBNET_REGION''), demo_state Map.empty)"
  by (rule create_new_raises [OF demo_no_stage])

subsection \<open>Migration\<close>

lemma detect_unsupported:
  assumes "os_path_exists fs (get_stage_file x name)"
      and "getattr_default (get_stage_object x fs name) ''spec_version'' (Str STAGE_VERSION_2_0) = v"
      and "v \<notin> {Str ''v1.0'', Str ''v2.0''}"
  shows "detect_stage_version x name fs = Inl (ValueError (unsupported_message v))"
  using assms
  by (simp add: detect_stage_version_def Let_def SUPPORTED_STAGE_VERSIONS_def
      STAGE_VERSION_1_0_def STAGE_VERSION_2_0_def)

text \<open>
  Claim C3. When the stage file of the current format is there and its version tag is
  neither \<open>v1.0\<close> nor \<open>v2.0\<close>, the detection raises \<open>ValueError\<close>; \<open>migrate\<close> writes the
  message, exits with status 1, and leaves every file as it was.
\<close>

theorem migrate_rejects_unsupported_version:
  assumes "os_path_exists (files s) (get_stage_file x (stage_name_or_default x name_opt))"
      and "getattr_default (get_stage_object x (files s) (stage_name_or_default x name_opt))
             ''spec_version'' (Str STAGE_VERSION_2_0) = v"
      and "v \<notin> {Str ''v1.0'', Str ''v2.0''}"
  shows "detect_stage_version x (stage_name_or_default x name_opt) (files s)
           = Inl (ValueError (unsupported_message v))
       \<and> migrate x p name_opt s = (Exit 1, s\<lparr>echoed := echoed s @ [unsupported_message v]\<rparr>)
       \<and> files (snd (migrate x p name_opt s)) = files s"
proof -
  have d: "detect_stage_version x (stage_name_or_default x name_opt) (files s)
             = Inl (ValueError (unsupported_message v))"
    by (rule detect_unsupported [OF assms])
  have m: "migrate x p name_opt s = (Exit 1, s\<lparr>echoed := echoed s @ [unsupported_message v]\<rparr>)"
    by (simp add: migrate_def parse_old_stage_file_def d and_then_def click_echo_def exit_def)
  show ?thesis using d m by simp
qed

lemma demo_v3_version:
  "getattr_default (get_stage_object (demo_externals False) demo_v3_files ''demo'')
     ''spec_version'' (Str STAGE_VERSION_2_0) = Str ''v3.0''"
  by (simp add: demo_externals_def demo_v3_files_def getattr_default_def env_lines_to_dict_def
      partition_eq_def)

theorem migrate_rejects_unsupported_version_witness:
  "migrate (demo_externals False) demo_process (Some ''demo'') (demo_state demo_v3_files)
     = (Exit 1, (demo_state demo_v3_files)
          \<lparr>echoed := [unsupported_message (Str ''v3.0'')]\<rparr>)
   \<and> files (snd (migrate (demo_externals False) demo_process (Some ''demo'')
                 (demo_state demo_v3_files))) = demo_v3_files"
proof -
  let ?x = "demo_externals False"
  let ?s = "demo_state demo_v3_files"
  have n: "stage_name_or_default ?x (Some ''demo'') = ''demo''"
    by (simp add: stage_name_or_default_def)
  have e: "os_path_exists (files ?s) (get_stage_file ?x (stage_name_or_default ?x (Some ''demo'')))"
    unfolding n
    by (simp add: os_path_exists_def demo_state_def demo_v3_files_def demo_externals_def)
  have v: "getattr_default (get_stage_object ?x (files ?s) (stage_name_or_default ?x (Some ''demo'')))
             ''spec_version'' (Str STAGE_VERSION_2_0) = Str ''v3.0''"
    using demo_v3_version unfolding n by (simp add: demo_state_def)
  have o: "Str ''v3.0'' \<notin> {Str ''v1.0'', Str ''v2.0''}" by simp
  show ?thesis
    using migrate_rejects_unsupported_version [OF e v o, of demo_process]
    by (simp add: demo_state_def)
qed

lemma migrate_legacy_raises:
  assumes "parse_old_stage_file x (stage_name_or_default x name_opt) s = (Return (Some old), s1)"
  shows "migrate x p name_opt s = (Raise (AttributeError ''SUBNET_REGION''), s1)"
  using assms by (simp add: migrate_def default_stage_context_raises)

lemma demo_legacy_parse:
  "parse_old_stage_file (demo_externals False) ''demo'' (demo_state demo_legacy_files)
     = (Return (Some [''database_tier'' \<mapsto> Str ''db-n1-standard-2'']),
        (demo_state demo_legacy_files)
          \<lparr>cloud := [''Load bash environment variables''],
           calls := [(mk_call ''Load bash environment variables''
                        ''source /crmint/scripts/variables/stages/demo.sh && set 2>/dev/null'' False)
                     \<lparr>cwd := ''/crmint'', stream_output_in_debug := False\<rparr>]\<rparr>)"
  by (simp add: parse_old_stage_file_def detect_stage_version_def os_path_exists_def
      demo_externals_def demo_state_def demo_legacy_files_def demo_stage_path_def os_path_join_def
      STAGE_VERSION_1_0_def and_then_def execute_command_def toy_shell_def toy_output_def
      mk_call_def return_def env_lines_to_dict_def partition_eq_def Let_def)

text \<open>
  Claim C2 on a concrete run: a legacy stage \<open>demo\<close> whose script sets
  \<open>database_tier=db-n1-standard-2\<close> is detected as \<open>v1.0\<close> and parsed into that one key;
  \<open>migrate\<close> then raises \<open>AttributeError\<close> while it computes the default context, before
  any overlay, and no file is written.
\<close>

theorem migrate_legacy_stage_raises:
  "detect_stage_version (demo_externals False) ''demo'' demo_legacy_files
     = Inr (Str ''v1.0'', ''/crmint/scripts/variables/stages/demo.sh'')
   \<and> fst (migrate (demo_externals False) demo_process (Some ''demo'') (demo_state demo_legacy_files))
     = Raise (AttributeError ''SUBNET_REGION'')
   \<and> files (snd (migrate (demo_externals False) demo_process (Some ''demo'')
                 (demo_state demo_legacy_files))) = demo_legacy_files"
proof -
  have n: "stage_name_or_default (demo_externals False) (Some ''demo'') = ''demo''"
    by (simp add: stage_name_or_default_def)
  have d: "detect_stage_version (demo_externals False) ''demo'' demo_legacy_files
             = Inr (Str ''v1.0'', ''/crmint/scripts/variables/stages/demo.sh'')"
    by (simp add: detect_stage_version_def os_path_exists_def demo_externals_def
        demo_legacy_files_def demo_stage_path_def os_path_join_def STAGE_VERSION_1_0_def Let_def)
  show ?thesis
    using d migrate_legacy_raises [of "demo_externals False" "Some ''demo''", unfolded n,
        OF demo_legacy_parse, of demo_process]
    by (simp add: demo_state_def)
qed

section \<open>Properties of the pipelines\<close>

subsection \<open>The order of the setup list\<close>

text \<open>
  Claim C6, as written, is false of the declared list: the database step does not precede
  the connector step.
\<close>

theorem setup_order_counterexample:
  "\<not> (precedes setup_components Create_vpc Create_mysql_instance_if_needed
       \<and> precedes setup_components Create_mysql_instance_if_needed Create_vpc_connector
       \<and> precedes setup_components Create_vpc_connector Create_appengine)"
  by (simp add: precedes_def setup_components_def)

text \<open>
  Claim C6, amended. In the declared list the network step precedes the connector step,
  the connector step precedes the App Engine step, and the App Engine step precedes the
  database step; so the network step precedes the database step, and the database step
  comes after the connector and App Engine steps, not before them.
\<close>

theorem setup_order:
  "precedes setup_components Create_vpc Create_vpc_connector
   \<and> precedes setup_components Create_vpc_connector Create_appengine
   \<and> precedes setup_components Create_appengine Create_mysql_instance_if_needed
   \<and> precedes setup_components Create_vpc Create_mysql_instance_if_needed
   \<and> \<not> precedes setup_components Create_mysql_instance_if_needed Create_vpc_connector
   \<and> \<not> precedes setup_components Create_mysql_instance_if_needed Create_appengine"
  by (simp add: precedes_def setup_components_def)

subsection \<open>A missing stage file\<close>

lemma fetch_missing:
  assumes "\<not> check_stage_file x (files s) (stage_name_or_default x name_opt)"
  shows "fetch_stage_or_default x name_opt dbg s =
           (Return None, s\<lparr>echoed := echoed s @
              [''Stage file '' @ sq @ stage_name_or_default x name_opt @ sq @ '' not found.'']\<rparr>)"
  using assms by (simp add: fetch_stage_or_default_def and_then_def click_echo_def return_def Let_def)

lemma fetch_present:
  assumes "check_stage_file x (files s) (stage_name_or_default x name_opt)"
  shows "fetch_stage_or_default x name_opt dbg s =
           (Return (Some (stage_name_or_default x name_opt,
                          get_stage_object x (files s) (stage_name_or_default x name_opt))), s)"
  using assms by (simp add: fetch_stage_or_default_def return_def Let_def)

lemma setup_missing_raises:
  assumes "\<not> check_stage_file x (files s) (stage_name_or_default x name_opt)"
  shows "cloud_setup x name_opt dbg s =
           (Raise TypeError, s\<lparr>echoed := echoed s @
              [''>>>> Setup'',
               ''Stage file '' @ sq @ stage_name_or_default x name_opt @ sq @ '' not found.'']\<rparr>)"
proof -
  let ?s0 = "s\<lparr>echoed := echoed s @ [''>>>> Setup'']\<rparr>"
  have "\<not> check_stage_file x (files ?s0) (stage_name_or_default x name_opt)"
    using assms by simp
  from fetch_missing [OF this, of dbg] show ?thesis
    by (simp add: cloud_setup_def and_then_def click_echo_def raise_def)
qed

text \<open>
  Claim C7 on a concrete run: with no stage file, \<open>setup\<close> for the name \<open>demo\<close> writes the
  banner and the line \<open>Stage file 'demo' not found.\<close>, then raises \<open>TypeError\<close> where it
  unpacks the result of \<open>fetch_stage_or_default\<close>; it does not reach \<open>exit(1)\<close>, writes no
  line that names the command creating a stage, and creates no file.
\<close>

theorem setup_missing_stage_raises:
  "cloud_setup (demo_externals True) (Some ''demo'') False (demo_state Map.empty)
     = (Raise TypeError,
        (demo_state Map.empty)
          \<lparr>echoed := [''>>>> Setup'', ''Stage file '' @ sq @ ''demo'' @ sq @ '' not found.'']\<rparr>)"
  using setup_missing_raises [OF demo_no_stage, of True False]
  by (simp add: demo_state_def stage_name_or_default_def)

subsection \<open>The loop over the components\<close>

lemma run_components_in_sequence:
  "run_components x cs stage dbg s
     = in_sequence (map (\<lambda>c. noted c (call_component x c stage dbg)) cs) s"
proof (induction cs arbitrary: s)
  case Nil
  then show ?case by (simp add: return_def)
next
  case (Cons c cs)
  obtain r s1 where c1: "call_component x c stage dbg s = (r, s1)"
    by (cases "call_component x c stage dbg s")
  show ?case
    using c1 Cons.IH by (cases r) (simp_all add: and_then_def noted_def Let_def)
qed

text \<open>A component of the deploy list other than \<open>d\<close> does not depend on the body of \<open>d\<close>.\<close>

lemma call_component_other_body:
  assumes "c \<in> set declared_deploy_components" and "c \<noteq> d"
  shows "call_component (x\<lparr>unmodelled_component := (unmodelled_component x)(d := body)\<rparr>) c
           = call_component x c"
  by (cases c rule: component.exhaust)
     (use assms in \<open>simp_all add: declared_deploy_components_def\<close>)

lemma run_components_same_bodies:
  assumes "\<And>c. c \<in> set cs \<Longrightarrow> call_component x' c = call_component x c"
  shows "run_components x' cs stage dbg s = run_components x cs stage dbg s"
  using assms
proof (induction cs arbitrary: s)
  case Nil
  then show ?case by simp
next
  case (Cons c cs)
  have c: "call_component x' c = call_component x c"
    using Cons.prems by simp
  have "\<And>t. run_components x' cs stage dbg t = run_components x cs stage dbg t"
    using Cons.IH Cons.prems by simp
  then show ?case by (simp add: c Let_def split: prod.split result.split)
qed

subsection \<open>The skip flags of deploy\<close>

lemma deploy_components_filter:
  "deploy_components sb sf =
     filter (\<lambda>c. \<not> (sb \<and> c = Deploy_backends) \<and> \<not> (sf \<and> c = Deploy_frontend))
       declared_deploy_components"
  by (cases sb; cases sf) (simp_all add: deploy_components_def declared_deploy_components_def)

lemma deploy_unfolded:
  assumes "check_stage_file x (files s) (stage_name_or_default x name_opt)"
      and "get_stage_object x (files s) (stage_name_or_default x name_opt) = Some m"
  shows "deploy x name_opt dbg sb sf s =
           and_then
             (run_components x (deploy_components sb sf)
                (before_hook x m (stage_name_or_default x name_opt)) dbg)
             (\<lambda>_. click_echo ''Done.'')
             (s\<lparr>echoed := echoed s @ [''>>>> Deploy'']\<rparr>)"
proof -
  let ?s0 = "s\<lparr>echoed := echoed s @ [''>>>> Deploy'']\<rparr>"
  have "check_stage_file x (files ?s0) (stage_name_or_default x name_opt)"
    using assms(1) by simp
  from fetch_present [OF this, of dbg] show ?thesis
    using assms(2) by (simp add: deploy_def and_then_def [of "click_echo _"]
        and_then_def [of "fetch_stage_or_default _ _ _"] click_echo_def Let_def)
qed

lemma deploy_other_body:
  assumes "d \<notin> set (deploy_components sb sf)"
  shows "deploy (x\<lparr>unmodelled_component := (unmodelled_component x)(d := body)\<rparr>) name_opt dbg sb sf s
           = deploy x name_opt dbg sb sf s"
proof -
  let ?x' = "x\<lparr>unmodelled_component := (unmodelled_component x)(d := body)\<rparr>"
  have sub: "set (deploy_components sb sf) \<subseteq> set declared_deploy_components"
    unfolding deploy_components_filter by auto
  have "\<And>stage dbg t. run_components ?x' (deploy_components sb sf) stage dbg t
                         = run_components x (deploy_components sb sf) stage dbg t"
  proof (rule run_components_same_bodies)
    fix c assume "c \<in> set (deploy_components sb sf)"
    then show "call_component ?x' c = call_component x c"
      using sub assms by (intro call_component_other_body) auto
  qed
  then have run: "run_components ?x' (deploy_components sb sf)
                    = run_components x (deploy_components sb sf)"
    by (intro ext) simp
  have n: "stage_name_or_default ?x' name_opt = stage_name_or_default x name_opt"
    by (simp add: stage_name_or_default_def split: option.split)
  have fetch: "fetch_stage_or_default ?x' name_opt dbg = fetch_stage_or_default x name_opt dbg"
    by (rule ext) (simp add: fetch_stage_or_default_def n Let_def)
  have hook: "before_hook ?x' = before_hook x"
    by simp
  show ?thesis
    unfolding deploy_def fetch Let_def run hook by (rule refl)
qed

text \<open>
  Claim C5. The list \<open>deploy\<close> runs is the declared list without \<open>deploy_backends\<close> when
  \<open>skip_deploy_backends\<close> is set, without \<open>deploy_frontend\<close> when \<open>skip_deploy_frontend\<close> is
  set, the other components in their declared order. The list is fixed before the loop
  starts, and for an existing stage \<open>deploy\<close> is, after its banner, the bodies of the
  components of that list run one after the other in that order, each on the state the
  one before it left, up to the first that exits or raises, and then the line \<open>Done.\<close>.
  With a skip flag set, the body of the component it names is not entered: whatever that
  body is, \<open>deploy\<close> does the same.
\<close>

theorem deploy_skip_flags:
  assumes "check_stage_file x (files s) (stage_name_or_default x name_opt)"
      and "get_stage_object x (files s) (stage_name_or_default x name_opt) = Some m"
  shows "deploy_components True False =
           [Install_required_packages, Display_workdir, Copy_src_to_workdir,
            Install_backends_dependencies, Deploy_frontend, Deploy_dispatch_rules,
            Download_cloud_sql_proxy, Start_cloud_sql_proxy, Prepare_flask_envars,
            Run_flask_db_upgrade, Run_flask_db_seeds, Stop_cloud_sql_proxy]
       \<and> deploy_components False True =
           [Install_required_packages, Display_workdir, Copy_src_to_workdir,
            Install_backends_dependencies, Deploy_backends, Deploy_dispatch_rules,
            Download_cloud_sql_proxy, Start_cloud_sql_proxy, Prepare_flask_envars,
            Run_flask_db_upgrade, Run_flask_db_seeds, Stop_cloud_sql_proxy]
       \<and> deploy_components sb sf =
           filter (\<lambda>c. \<not> (sb \<and> c = Deploy_backends) \<and> \<not> (sf \<and> c = Deploy_frontend))
             declared_deploy_components
       \<and> deploy x name_opt dbg sb sf s =
           and_then
             (in_sequence
                (map (\<lambda>c. noted c
                        (call_component x c (before_hook x m (stage_name_or_default x name_opt)) dbg))
                   (deploy_components sb sf)))
             (\<lambda>_. click_echo ''Done.'')
             (s\<lparr>echoed := echoed s @ [''>>>> Deploy'']\<rparr>)
       \<and> deploy (x\<lparr>unmodelled_component := (unmodelled_component x)(Deploy_backends := body)\<rparr>)
           name_opt dbg True sf s
         = deploy x name_opt dbg True sf s
       \<and> deploy (x\<lparr>unmodelled_component := (unmodelled_component x)(Deploy_frontend := body)\<rparr>)
           name_opt dbg sb True s
         = deploy x name_opt dbg sb True s"
proof -
  have a: "deploy_components True False =
           [Install_required_packages, Display_workdir, Copy_src_to_workdir,
            Install_backends_dependencies, Deploy_frontend, Deploy_dispatch_rules,
            Download_cloud_sql_proxy, Start_cloud_sql_proxy, Prepare_flask_envars,
            Run_flask_db_upgrade, Run_flask_db_seeds, Stop_cloud_sql_proxy]"
    by (simp add: deploy_components_def declared_deploy_components_def)
  have b: "deploy_components False True =
           [Install_required_packages, Display_workdir, Copy_src_to_workdir,
            Install_backends_dependencies, Deploy_backends, Deploy_dispatch_rules,
            Download_cloud_sql_proxy, Start_cloud_sql_proxy, Prepare_flask_envars,
            Run_flask_db_upgrade, Run_flask_db_seeds, Stop_cloud_sql_proxy]"
    by (simp add: deploy_components_def declared_deploy_components_def)
  have d: "deploy x name_opt dbg sb sf s =
           and_then
             (in_sequence
                (map (\<lambda>c. noted c
                        (call_component x c (before_hook x m (stage_name_or_default x name_opt)) dbg))
                   (deploy_components sb sf)))
             (\<lambda>_. click_echo ''Done.'')
             (s\<lparr>echoed := echoed s @ [''>>>> Deploy'']\<rparr>)"
    unfolding deploy_unfolded [OF assms, of dbg sb sf]
    by (simp add: and_then_def run_components_in_sequence)
  have nb: "Deploy_backends \<notin> set (deploy_components True sf)"
    unfolding deploy_components_filter by simp
  have nf: "Deploy_frontend \<notin> set (deploy_components sb True)"
    unfolding deploy_components_filter by simp
  show ?thesis
    using a b deploy_components_filter [of sb sf] d deploy_other_body [OF nb, of x body name_opt dbg s]
      deploy_other_body [OF nf, of x body name_opt dbg s]
    by blast
qed

lemma demo_name: "stage_name_or_default (demo_externals owner) (Some ''demo'') = ''demo''"
  by (simp add: stage_name_or_default_def)

lemma demo_v2_exists:
  "check_stage_file (demo_externals owner) (files (demo_state demo_v2_files))
     (stage_name_or_default (demo_externals owner) (Some ''demo''))"
  unfolding demo_name by (simp add: demo_externals_def demo_state_def demo_v2_files_def)

lemma demo_v2_object:
  "get_stage_object (demo_externals owner) (files (demo_state demo_v2_files))
     (stage_name_or_default (demo_externals owner) (Some ''demo''))
     = Some (env_lines_to_dict ''spec_version=v2.0'')"
  unfolding demo_name by (simp add: demo_externals_def demo_state_def demo_v2_files_def)

lemma demo_unmodelled:
  "unmodelled_component (demo_externals owner) c st dbg s
     = (Return (), s\<lparr>cloud := cloud s @ [component_name c]\<rparr>)"
  by (simp add: demo_externals_def)

text \<open>
  On the toy installation, where each of these components leaves its name on the control
  plane: with \<open>skip_deploy_backends\<close> set, \<open>deploy\<close> returns, and the bodies entered are
  those of the twelve other components, in the declared order; \<open>deploy_backends\<close> is not
  among them.
\<close>

theorem deploy_skip_flags_witness:
  "deploy (demo_externals True) (Some ''demo'') False True False (demo_state demo_v2_files)
     = (Return (),
        \<lparr>files = demo_v2_files,
         cloud = [''install_required_packages'', ''display_workdir'', ''copy_src_to_workdir'',
                  ''install_backends_dependencies'', ''deploy_frontend'', ''deploy_dispatch_rules'',
                  ''download_cloud_sql_proxy'', ''start_cloud_sql_proxy'', ''prepare_flask_envars'',
                  ''run_flask_db_upgrade'', ''run_flask_db_seeds'', ''stop_cloud_sql_proxy''],
         echoed = [''>>>> Deploy'', ''Done.''],
         calls = [],
         invoked = [Install_required_packages, Display_workdir, Copy_src_to_workdir,
                    Install_backends_dependencies, Deploy_frontend, Deploy_dispatch_rules,
                    Download_cloud_sql_proxy, Start_cloud_sql_proxy, Prepare_flask_envars,
                    Run_flask_db_upgrade, Run_flask_db_seeds, Stop_cloud_sql_proxy]\<rparr>)"
proof -
  note t = deploy_skip_flags [OF demo_v2_exists demo_v2_object, of True False True False]
  note l = t [THEN conjunct1]
  note e = t [THEN conjunct2, THEN conjunct2, THEN conjunct2, THEN conjunct1]
  show ?thesis
    unfolding e l
    by (simp add: demo_unmodelled and_then_def noted_def click_echo_def return_def demo_state_def)
qed

subsection \<open>The guard of setup\<close>

lemma confirm_shape:
  assumes "confirm_authorized_user_owner_role x st dbg s = (Return b, s')"
  shows "invoked s' = invoked s \<and> echoed s' = echoed s
       \<and> map step_name (new_calls s s')
           = [''Getting authorized user'', ''Check if authorized user is owner'']"
  using assms
  by (auto simp: confirm_authorized_user_owner_role_def and_then_def execute_command_def
      return_def new_calls_def mk_call_def split: prod.splits result.splits)

text \<open>
  Claim C4. For an existing stage, when the owner check returns false, \<open>setup\<close> exits with
  status 1 after the two commands of the check: the loop over the components is not
  entered, no component is called, and the last line written is the one that says the
  user is not an owner.
\<close>

theorem setup_guard_short_circuit:
  assumes "check_stage_file x (files s) (stage_name_or_default x name_opt)"
      and "get_stage_object x (files s) (stage_name_or_default x name_opt) = Some m"
      and "fst (confirm_authorized_user_owner_role x
                  (before_hook x m (stage_name_or_default x name_opt)) dbg
                  (s\<lparr>echoed := echoed s @ [''>>>> Setup'']\<rparr>)) = Return False"
  shows "fst (cloud_setup x name_opt dbg s) = Exit 1
       \<and> invoked (snd (cloud_setup x name_opt dbg s)) = invoked s
       \<and> map step_name (new_calls s (snd (cloud_setup x name_opt dbg s)))
           = [''Getting authorized user'', ''Check if authorized user is owner'']
       \<and> echoed (snd (cloud_setup x name_opt dbg s))
           = echoed s @ [''>>>> Setup'', not_owner_message]"
proof -
  let ?s0 = "s\<lparr>echoed := echoed s @ [''>>>> Setup'']\<rparr>"
  let ?st = "before_hook x m (stage_name_or_default x name_opt)"
  obtain s1 where g: "confirm_authorized_user_owner_role x ?st dbg ?s0 = (Return False, s1)"
    using assms(3) by (cases "confirm_authorized_user_owner_role x ?st dbg ?s0") simp
  note sh = confirm_shape [OF g]
  have "check_stage_file x (files ?s0) (stage_name_or_default x name_opt)"
    using assms(1) by simp
  from fetch_present [OF this, of dbg]
  have run: "cloud_setup x name_opt dbg s = (Exit 1, s1\<lparr>echoed := echoed s1 @ [not_owner_message]\<rparr>)"
    using assms(2) g
    by (simp add: cloud_setup_def and_then_def click_echo_def exit_def Let_def)
  show ?thesis using run sh by (simp add: new_calls_def)
qed

theorem setup_guard_short_circuit_witness:
  "fst (cloud_setup (demo_externals False) (Some ''demo'') False (demo_state demo_v2_files)) = Exit 1
   \<and> invoked (snd (cloud_setup (demo_externals False) (Some ''demo'') False
                     (demo_state demo_v2_files))) = []
   \<and> echoed (snd (cloud_setup (demo_externals False) (Some ''demo'') False
                    (demo_state demo_v2_files))) = [''>>>> Setup'', not_owner_message]"
proof -
  have g: "fst (confirm_authorized_user_owner_role (demo_externals False)
                  (before_hook (demo_externals False) (env_lines_to_dict ''spec_version=v2.0'')
                     (stage_name_or_default (demo_externals False) (Some ''demo''))) False
                  ((demo_state demo_v2_files)
                     \<lparr>echoed := echoed (demo_state demo_v2_files) @ [''>>>> Setup'']\<rparr>))
             = Return False"
    by (simp add: confirm_authorized_user_owner_role_def and_then_def execute_command_def
        return_def demo_externals_def toy_shell_def toy_present_def mk_call_def)
  show ?thesis
    using setup_guard_short_circuit [OF demo_v2_exists demo_v2_object g]
    by (simp add: demo_state_def)
qed


section \<open>The stage file of an existing stage\<close>












end
